theory Spec2Isabelle
  imports Complex_Main
begin

section \<open>Text and numbers as the Python code formats them\<close>

text \<open>
  Python strings are modelled as \<^typ>\<open>string\<close>; a character stands for the code point of
  the same number (0 to 255).  Python's unbounded integers are \<^typ>\<open>int\<close>.
\<close>

definition digit_char :: "nat \<Rightarrow> char" where
  "digit_char d = ''0123456789'' ! d"

definition is_digit :: "char \<Rightarrow> bool" where
  "is_digit c \<longleftrightarrow> 48 \<le> (of_char c :: nat) \<and> (of_char c :: nat) \<le> 57"

definition digit_val :: "char \<Rightarrow> nat" where
  "digit_val c = of_char c - 48"

text \<open>\<open>str(n)\<close> for a natural number: its decimal digits, most significant first.\<close>

function str_nat :: "nat \<Rightarrow> string" where
  "str_nat n = (if n < 10 then [digit_char n] else str_nat (n div 10) @ [digit_char (n mod 10)])"
  by pat_completeness auto
termination
  by (relation "measure id") auto

declare str_nat.simps [simp del]

text \<open>\<open>str(i)\<close> for a Python int.\<close>

definition str_int :: "int \<Rightarrow> string" where
  "str_int i = (if i < 0 then CHR ''-'' # str_nat (nat (- i)) else str_nat (nat i))"




lemma str_nat_small: "n < 10 \<Longrightarrow> str_nat n = [digit_char n]"
  by (simp add: str_nat.simps)

lemma str_nat_big: "10 \<le> n \<Longrightarrow> str_nat n = str_nat (n div 10) @ [digit_char (n mod 10)]"
  by (subst str_nat.simps) simp


subsection \<open>Currency amounts and the format spec \<open>.2f\<close>\<close>

text \<open>
  A cost is a Python float.  A finite float is a sign, a mantissa and a binary exponent:
  \<open>Finite neg m e\<close> is the number \<open>\<plusminus> m * 2 ^ e\<close> (150.5 is \<open>301 * 2 ^ -1\<close>).  Costs are
  amounts of money, so the type holds the finite values only.
\<close>

datatype pyfloat = Finite bool nat int

fun is_negative :: "pyfloat \<Rightarrow> bool" where
  "is_negative (Finite neg m e) = neg"


text \<open>
  \<open>format(x, ".2f")\<close> rounds the exact binary value to the nearest hundredth, a tie going
  to the even neighbour, and keeps the sign of the float (also of a negative zero).
\<close>

definition round_half_even :: "nat \<Rightarrow> nat \<Rightarrow> nat" where
  "round_half_even a d =
     (let q = a div d; r = a mod d
      in if 2 * r > d \<or> (2 * r = d \<and> odd q) then q + 1 else q)"

fun hundredths :: "pyfloat \<Rightarrow> nat" where
  "hundredths (Finite neg m e) =
     (if 0 \<le> e then m * 100 * 2 ^ nat e else round_half_even (m * 100) (2 ^ nat (- e)))"

definition format_2f :: "pyfloat \<Rightarrow> string" where
  "format_2f x =
     (let h = hundredths x
      in (if is_negative x then ''-'' else '''') @ str_nat (h div 100) @ ''.''
         @ [digit_char (h mod 100 div 10), digit_char (h mod 10)])"








section \<open>Stripping console markup: \<open>clean_rich_tags\<close>\<close>

text \<open>
  The source is \<open>re.sub(r"\[/?[a-zA-Z0-9#_]*\]", "", text)\<close>.  A tag is an opening bracket,
  an optional slash, any number of characters of the class and a closing bracket; the
  match at a position is unique when it exists, and \<open>re.sub\<close> deletes the leftmost matches
  that do not overlap, in one pass from left to right.
\<close>

definition tag_char :: "char \<Rightarrow> bool" where
  "tag_char c \<longleftrightarrow>
     (let n = (of_char c :: nat) in
      (97 \<le> n \<and> n \<le> 122) \<or> (65 \<le> n \<and> n \<le> 90) \<or> (48 \<le> n \<and> n \<le> 57)
      \<or> c = CHR ''#'' \<or> c = CHR ''_'')"

text \<open>The text after the closing bracket, when the class characters run up to one.\<close>

fun match_tag_body :: "string \<Rightarrow> string option" where
  "match_tag_body [] = None"
| "match_tag_body (c # cs) =
     (if c = CHR '']'' then Some cs
      else if tag_char c then match_tag_body cs
      else None)"

text \<open>The text after the tag that starts at the head of the string, if one starts there.\<close>

fun match_tag :: "string \<Rightarrow> string option" where
  "match_tag [] = None"
| "match_tag (c # cs) =
     (if c = CHR ''['' then
        (case cs of
           [] \<Rightarrow> None
         | d # ds \<Rightarrow> if d = CHR ''/'' then match_tag_body ds else match_tag_body cs)
      else None)"

lemma match_tag_body_suffix:
  "match_tag_body s = Some r \<Longrightarrow> \<exists>p. s = p @ r \<and> p \<noteq> []"
proof (induction s)
  case Nil
  then show ?case by simp
next
  case (Cons c cs)
  show ?case
  proof (cases "c = CHR '']''")
    case True
    with Cons.prems have "c # cs = [c] @ r \<and> [c] \<noteq> []" by simp
    then show ?thesis by blast
  next
    case False
    with Cons.prems have m: "match_tag_body cs = Some r"
      by (auto split: if_splits)
    from Cons.IH [OF m] obtain p where "cs = p @ r" by blast
    then have "c # cs = (c # p) @ r \<and> c # p \<noteq> []" by simp
    then show ?thesis by blast
  qed
qed

lemma match_tag_suffix:
  assumes "match_tag s = Some r"
  shows "\<exists>p. s = p @ r \<and> p \<noteq> []"
proof (cases s)
  case Nil
  with assms show ?thesis by simp
next
  case (Cons c cs)
  with assms have "(\<exists>ds. cs = CHR ''/'' # ds \<and> match_tag_body ds = Some r) \<or> match_tag_body cs = Some r"
    by (auto split: if_splits list.splits)
  then show ?thesis
  proof
    assume "\<exists>ds. cs = CHR ''/'' # ds \<and> match_tag_body ds = Some r"
    then obtain ds where ds: "cs = CHR ''/'' # ds" "match_tag_body ds = Some r" by blast
    from match_tag_body_suffix [OF ds(2)] obtain p where "ds = p @ r" by blast
    with Cons ds(1) have "s = (c # CHR ''/'' # p) @ r \<and> c # CHR ''/'' # p \<noteq> []" by simp
    then show ?thesis by blast
  next
    assume "match_tag_body cs = Some r"
    from match_tag_body_suffix [OF this] obtain p where "cs = p @ r" by blast
    with Cons have "s = (c # p) @ r \<and> c # p \<noteq> []" by simp
    then show ?thesis by blast
  qed
qed

lemma match_tag_shorter: "match_tag s = Some r \<Longrightarrow> length r < length s"
  using match_tag_suffix by fastforce

function clean_rich_tags :: "string \<Rightarrow> string" where
  "clean_rich_tags [] = []"
| "clean_rich_tags (c # cs) =
     (case match_tag (c # cs) of
        Some rest \<Rightarrow> clean_rich_tags rest
      | None \<Rightarrow> c # clean_rich_tags cs)"
  by pat_completeness auto
termination
proof (relation "measure length")
  show "wf (measure length)" by simp
next
  fix c :: char and cs r :: string
  assume "match_tag (c # cs) = Some r"
  then show "(r, c # cs) \<in> measure length" using match_tag_shorter by fastforce
next
  fix c :: char and cs :: string
  show "(cs, c # cs) \<in> measure length" by simp
qed

text \<open>Whether a tag starts somewhere in the text.\<close>

fun has_tag :: "string \<Rightarrow> bool" where
  "has_tag [] = False"
| "has_tag (c # cs) = (match_tag (c # cs) \<noteq> None \<or> has_tag cs)"





lemma clean_without_tag: "\<not> has_tag s \<Longrightarrow> clean_rich_tags s = s"
  by (induction s rule: clean_rich_tags.induct) auto

section \<open>The cost report: the flowables of one profile\<close>

text \<open>
  \<open>ProfileData\<close> is a typed dict, so every key is present.  The two dicts keep their
  insertion order, in which \<open>items()\<close> walks them.
\<close>

record ProfileData =
  profile :: string
  account_id :: string
  last_month :: pyfloat
  current_month :: pyfloat
  service_costs :: "(string \<times> pyfloat) list"
  budget_info :: "string list"
  ec2_summary :: "(string \<times> int) list"

text \<open>
  The block elements handed to the layout engine.  The helpers \<open>miniHeader\<close>,
  \<open>bulletList\<close>, \<open>keyValueTable\<close> and \<open>paragraphStyling\<close> build one flowable from their
  argument; the model records which helper was called with which argument.
\<close>

datatype flowable =
    Title string
  | Spacer nat nat
  | HeaderCard string
  | StyledParagraph string
  | MiniHeader string
  | BulletList "string list"
  | KeyValueTable "(string \<times> string) list"
  | FooterParagraph string

definition kv_rows :: "ProfileData \<Rightarrow> (string \<times> string) list" where
  "kv_rows row =
     [(''Previous Period Cost'', ''<b>$'' @ format_2f (last_month row) @ ''</b>''),
      (''Current Period Cost'', ''<b>$'' @ format_2f (current_month row) @ ''</b>'')]"

definition budgets :: "ProfileData \<Rightarrow> string list" where
  "budgets row = (if budget_info row \<noteq> [] then budget_info row else [''No budgets''])"

definition ec2_items :: "ProfileData \<Rightarrow> string list" where
  "ec2_items row =
     (let items = map (\<lambda>(state, count). state @ '': '' @ str_int count)
                    (filter (\<lambda>(state, count). count > 0) (ec2_summary row))
      in if items \<noteq> [] then items else [''No instances''])"

definition header_text :: "string \<Rightarrow> string \<Rightarrow> string" where
  "header_text p a = ''<b>Profile:</b> '' @ p @ ''  &nbsp;&nbsp;&nbsp; '' @ ''<b>Account:</b> '' @ a"

text \<open>
  One pass of the loop over \<open>enumerate(data)\<close>; \<open>formatServicesForList\<close> comes from
  \<open>pdf_utils\<close> and is a parameter.
\<close>

definition cost_row_elements ::
  "((string \<times> pyfloat) list \<Rightarrow> string list) \<Rightarrow> nat \<Rightarrow> nat \<Rightarrow> ProfileData \<Rightarrow> flowable list" where
  "cost_row_elements formatServicesForList n idx row =
     [HeaderCard (header_text (profile row) (account_id row)), Spacer 1 6,
      KeyValueTable (kv_rows row), Spacer 1 6,
      MiniHeader ''Cost By Service'', BulletList (formatServicesForList (service_costs row)),
      Spacer 1 6,
      MiniHeader ''Budget Status'', BulletList (budgets row), Spacer 1 6,
      MiniHeader ''EC2 Instances'', BulletList (ec2_items row)]
     @ (if int idx < int n - 1 then [Spacer 1 14] else [])"

fun cost_rows_elements ::
  "((string \<times> pyfloat) list \<Rightarrow> string list) \<Rightarrow> nat \<Rightarrow> nat \<Rightarrow> ProfileData list \<Rightarrow> flowable list" where
  "cost_rows_elements f n idx [] = []"
| "cost_rows_elements f n idx (row # rows) =
     cost_row_elements f n idx row @ cost_rows_elements f n (Suc idx) rows"

definition cost_elements ::
  "((string \<times> pyfloat) list \<Rightarrow> string list) \<Rightarrow> string \<Rightarrow> string \<Rightarrow> string
     \<Rightarrow> ProfileData list \<Rightarrow> flowable list" where
  "cost_elements f previous_period_dates current_period_dates footer_stamp data =
     [Title ''AWS FinOps Dashboard (Cost Report)'', Spacer 1 10,
      StyledParagraph (''<b>Previous Period:</b> '' @ previous_period_dates
                       @ ''<br/><b>Current Period:</b> '' @ current_period_dates),
      Spacer 1 6]
     @ cost_rows_elements f (length data) 0 data
     @ [Spacer 1 8,
        FooterParagraph (''This report is generated using AWS FinOps Dashboard (CLI) '' @ [CHR 0xA9]
                         @ '' 2025 on '' @ footer_stamp)]"

lemma cost_rows_elements_nth:
  "i < length rows \<Longrightarrow>
   \<exists>pre post. cost_rows_elements f n idx rows = pre @ cost_row_elements f n (idx + i) (rows ! i) @ post"
proof (induction rows arbitrary: i idx)
  case Nil
  then show ?case by simp
next
  case (Cons r rs)
  show ?case
  proof (cases i)
    case 0
    have "cost_rows_elements f n idx (r # rs)
          = [] @ cost_row_elements f n (idx + 0) r @ cost_rows_elements f n (Suc idx) rs"
      by simp
    with 0 show ?thesis by (metis nth_Cons_0)
  next
    case (Suc j)
    with Cons.prems have "j < length rs" by simp
    from Cons.IH [OF this, of "Suc idx"] obtain pre post where
      "cost_rows_elements f n (Suc idx) rs = pre @ cost_row_elements f n (Suc idx + j) (rs ! j) @ post"
      by blast
    then have "cost_rows_elements f n idx (r # rs)
          = (cost_row_elements f n idx r @ pre) @ cost_row_elements f n (idx + i) ((r # rs) ! i) @ post"
      using Suc by simp
    then show ?thesis by blast
  qed
qed


lemma cost_row_elements_sections:
  "\<exists>pre mid post. cost_row_elements f n idx row =
      pre @ [MiniHeader ''Budget Status'', BulletList (budgets row)] @ mid
          @ [MiniHeader ''EC2 Instances'', BulletList (ec2_items row)] @ post"
proof -
  have "cost_row_elements f n idx row =
      [HeaderCard (header_text (profile row) (account_id row)), Spacer 1 6,
       KeyValueTable (kv_rows row), Spacer 1 6,
       MiniHeader ''Cost By Service'', BulletList (f (service_costs row)), Spacer 1 6]
      @ [MiniHeader ''Budget Status'', BulletList (budgets row)] @ [Spacer 1 6]
      @ [MiniHeader ''EC2 Instances'', BulletList (ec2_items row)]
      @ (if int idx < int n - 1 then [Spacer 1 14] else [])"
    by (simp add: cost_row_elements_def)
  then show ?thesis by blast
qed

lemma cost_elements_sections:
  assumes "i < length data"
  shows "\<exists>pre mid post. cost_elements f prev cur stamp data =
      pre @ [MiniHeader ''Budget Status'', BulletList (budgets (data ! i))] @ mid
          @ [MiniHeader ''EC2 Instances'', BulletList (ec2_items (data ! i))] @ post"
proof -
  from cost_rows_elements_nth [OF assms, of f "length data" 0] obtain p1 q1 where
    a: "cost_rows_elements f (length data) 0 data
        = p1 @ cost_row_elements f (length data) (0 + i) (data ! i) @ q1" by blast
  from cost_row_elements_sections [of f "length data" "0 + i" "data ! i"] obtain p2 m2 q2 where
    b: "cost_row_elements f (length data) (0 + i) (data ! i) =
      p2 @ [MiniHeader ''Budget Status'', BulletList (budgets (data ! i))] @ m2
          @ [MiniHeader ''EC2 Instances'', BulletList (ec2_items (data ! i))] @ q2" by blast
  define hd4 where "hd4 = [Title ''AWS FinOps Dashboard (Cost Report)'', Spacer 1 10,
      StyledParagraph (''<b>Previous Period:</b> '' @ prev @ ''<br/><b>Current Period:</b> '' @ cur),
      Spacer 1 6]"
  define ft where "ft = [Spacer 1 8,
        FooterParagraph (''This report is generated using AWS FinOps Dashboard (CLI) '' @ [CHR 0xA9]
                         @ '' 2025 on '' @ stamp)]"
  have "cost_elements f prev cur stamp data = hd4 @ cost_rows_elements f (length data) 0 data @ ft"
    by (simp add: cost_elements_def hd4_def ft_def)
  with a b have "cost_elements f prev cur stamp data =
      (hd4 @ p1 @ p2) @ [MiniHeader ''Budget Status'', BulletList (budgets (data ! i))] @ m2
          @ [MiniHeader ''EC2 Instances'', BulletList (ec2_items (data ! i))] @ (q2 @ q1 @ ft)"
    by simp
  then show ?thesis by blast
qed

lemma ec2_items_cases:
  "((\<forall>(state, count) \<in> set (ec2_summary row). count \<le> 0) \<longrightarrow> ec2_items row = [''No instances''])
   \<and> ((\<exists>(state, count) \<in> set (ec2_summary row). count > 0) \<longrightarrow>
        ec2_items row = map (\<lambda>(state, count). state @ '': '' @ str_int count)
                            (filter (\<lambda>(state, count). count > 0) (ec2_summary row)))"
proof -
  have a: "filter (\<lambda>(state, count). count > 0) (ec2_summary row) = []"
    if "\<forall>(state, count) \<in> set (ec2_summary row). count \<le> 0"
    using that by (auto simp: filter_empty_conv)
  have b: "filter (\<lambda>(state, count). count > 0) (ec2_summary row) \<noteq> []"
    if "\<exists>(state, count) \<in> set (ec2_summary row). count > 0"
    using that by (auto simp: filter_empty_conv)
  show ?thesis using a b by (auto simp: ec2_items_def Let_def)
qed

text \<open>Two rows for the examples: one with a budget and running instances, one with neither.\<close>

definition row0 :: ProfileData where
  "row0 = \<lparr>profile = ''prod'', account_id = ''123456789012'',
           last_month = Finite False 100 0, current_month = Finite False 301 (- 1),
           service_costs = [(''EC2'', Finite False 100 0)],
           budget_info = [''monthly: 80% used''],
           ec2_summary = [(''running'', 3), (''stopped'', 0)]\<rparr>"

definition row1 :: ProfileData where
  "row1 = \<lparr>profile = ''dev'', account_id = ''210987654321'',
           last_month = Finite False 0 0, current_month = Finite False 0 0,
           service_costs = [], budget_info = [],
           ec2_summary = [(''running'', 0), (''stopped'', 0)]\<rparr>"

section \<open>The audit report as CSV\<close>

text \<open>
  An audit row is a dict from field names to strings; \<open>item.get(key, "")\<close> reads a field
  and gives the empty string for a missing one.
\<close>

type_synonym AuditRow = "string \<rightharpoonup> string"

definition dict_get :: "AuditRow \<Rightarrow> string \<Rightarrow> string \<Rightarrow> string" where
  "dict_get item key dflt = (case item key of None \<Rightarrow> dflt | Some v \<Rightarrow> v)"

definition headers :: "string list" where
  "headers = [''Profile'', ''Account ID'', ''Untagged Resources'', ''Stopped EC2 Instances'',
              ''Unused Volumes'', ''Unused EIPs'', ''Budget Alerts'']"

definition data_keys :: "string list" where
  "data_keys = [''profile'', ''account_id'', ''untagged_resources'', ''stopped_instances'',
                ''unused_volumes'', ''unused_eips'', ''budget_alerts'']"

text \<open>
  \<open>csv.writer\<close> with its default dialect: fields joined by a comma, a row ended by CR LF,
  a field quoted only when it holds the delimiter, the quote character, CR or LF, and a
  quote character inside a quoted field doubled.
\<close>

definition CR :: char where
  "CR = CHR 0x0D"

definition LF :: char where
  "LF = CHR 0x0A"

definition csv_special :: "char \<Rightarrow> bool" where
  "csv_special c \<longleftrightarrow> c = CHR '','' \<or> c = CHR 0x22 \<or> c = CR \<or> c = LF"

fun double_quotes :: "string \<Rightarrow> string" where
  "double_quotes [] = []"
| "double_quotes (c # cs) = (if c = CHR 0x22 then CHR 0x22 # CHR 0x22 # double_quotes cs
                             else c # double_quotes cs)"

definition csv_field :: "string \<Rightarrow> string" where
  "csv_field s = (if list_ex csv_special s then [CHR 0x22] @ double_quotes s @ [CHR 0x22] else s)"

fun join :: "string \<Rightarrow> string list \<Rightarrow> string" where
  "join sep [] = []"
| "join sep [x] = x"
| "join sep (x # y # ys) = x @ sep @ join sep (y # ys)"

definition csv_record :: "string list \<Rightarrow> string" where
  "csv_record cells = join '','' (map csv_field cells)"

definition writerow :: "string \<Rightarrow> string list \<Rightarrow> string" where
  "writerow buffer cells = buffer @ csv_record cells @ [CR, LF]"

text \<open>The loop \<open>for item in audit_data_list: writer.writerow(...)\<close> on the buffer.\<close>

fun write_items :: "string \<Rightarrow> AuditRow list \<Rightarrow> string" where
  "write_items buffer [] = buffer"
| "write_items buffer (item # items) =
     write_items (writerow buffer (map (\<lambda>key. dict_get item key '''') data_keys)) items"

definition audit_csv :: "AuditRow list \<Rightarrow> string" where
  "audit_csv audit_data_list = write_items (writerow [] headers) audit_data_list"

subsection \<open>Reading the text back: lines and records\<close>



text \<open>Splitting a line at every comma, as \<open>line.split(",")\<close> does.\<close>

fun split_from :: "char \<Rightarrow> string \<Rightarrow> string \<Rightarrow> string list" where
  "split_from sep acc [] = [acc]"
| "split_from sep acc (c # cs) =
     (if c = sep then acc # split_from sep [] cs else split_from sep (acc @ [c]) cs)"

definition split_at :: "char \<Rightarrow> string \<Rightarrow> string list" where
  "split_at sep s = split_from sep [] s"


definition no_linebreak :: "string \<Rightarrow> bool" where
  "no_linebreak s \<longleftrightarrow> \<not> list_ex (\<lambda>c. c = CR \<or> c = LF) s"



lemma no_linebreak_append [simp]: "no_linebreak (a @ b) \<longleftrightarrow> no_linebreak a \<and> no_linebreak b"
  by (auto simp: no_linebreak_def list_ex_iff)


lemma no_linebreak_Nil [simp]: "no_linebreak []"
  by (simp add: no_linebreak_def)















text \<open>Two audit rows for the examples: the first lacks most fields, the second lists two
  instances on two lines of one field.\<close>

definition audit_row0 :: AuditRow where
  "audit_row0 = [''profile'' \<mapsto> ''prod'', ''account_id'' \<mapsto> ''123456789012'',
                 ''unused_eips'' \<mapsto> ''1.2.3.4, 5.6.7.8'']"


section \<open>JSON: \<open>json.dumps(x, indent=4)\<close> and \<open>json.loads\<close>\<close>

text \<open>
  The values \<open>json.dumps\<close> accepts, floats left out: \<open>None\<close>, booleans, integers, strings,
  lists, tuples and dicts whose keys are strings, integers, booleans or \<open>None\<close>.  A dict is
  the list of its items in insertion order.
\<close>

datatype pykey = KStr string | KInt int | KBool bool | KNone

datatype pyval =
    PNone
  | PBool bool
  | PInt int
  | PStr string
  | PList "pyval list"
  | PTuple "pyval list"
  | PDict "(pykey \<times> pyval) list"

subsection \<open>The encoder\<close>

definition hex_char :: "nat \<Rightarrow> char" where
  "hex_char d = ''0123456789abcdef'' ! d"

text \<open>
  One character of a string, with \<open>ensure_ascii\<close>: the quote, the backslash and the
  characters outside the printable ASCII range are escaped, the short escapes first.
\<close>

definition escape_char :: "char \<Rightarrow> string" where
  "escape_char c =
     (if c = CHR 0x22 then [CHR 0x5C, CHR 0x22]
      else if c = CHR 0x5C then [CHR 0x5C, CHR 0x5C]
      else if c = CHR 0x0A then [CHR 0x5C, CHR ''n'']
      else if c = CHR 0x0D then [CHR 0x5C, CHR ''r'']
      else if c = CHR 0x09 then [CHR 0x5C, CHR ''t'']
      else if c = CHR 0x08 then [CHR 0x5C, CHR ''b'']
      else if c = CHR 0x0C then [CHR 0x5C, CHR ''f'']
      else if 32 \<le> (of_char c :: nat) \<and> (of_char c :: nat) \<le> 126 then [c]
      else [CHR 0x5C, CHR ''u'', CHR ''0'', CHR ''0'',
            hex_char ((of_char c :: nat) div 16), hex_char ((of_char c :: nat) mod 16)])"

definition encode_string :: "string \<Rightarrow> string" where
  "encode_string s = [CHR 0x22] @ concat (map escape_char s) @ [CHR 0x22]"

text \<open>A dict key as the encoder writes it: every key becomes a string.\<close>

fun key_str :: "pykey \<Rightarrow> string" where
  "key_str (KStr s) = s"
| "key_str (KInt i) = str_int i"
| "key_str (KBool b) = (if b then ''true'' else ''false'')"
| "key_str KNone = ''null''"

text \<open>A line feed and the indentation of a nesting level, four spaces a level.\<close>

definition newline_indent :: "nat \<Rightarrow> string" where
  "newline_indent level = CHR 0x0A # replicate (4 * level) (CHR '' '')"

text \<open>
  The encoder at a nesting level.  An empty list or dict is written without a line
  break; the items of the others stand on lines of their own, separated by commas.
\<close>

fun encode :: "nat \<Rightarrow> pyval \<Rightarrow> string"
  and encode_rest :: "nat \<Rightarrow> pyval list \<Rightarrow> string"
  and encode_members :: "nat \<Rightarrow> (pykey \<times> pyval) list \<Rightarrow> string" where
  "encode level PNone = ''null''"
| "encode level (PBool b) = (if b then ''true'' else ''false'')"
| "encode level (PInt i) = str_int i"
| "encode level (PStr s) = encode_string s"
| "encode level (PList []) = ''[]''"
| "encode level (PList (x # xs)) =
     ''['' @ newline_indent (Suc level) @ encode (Suc level) x @ encode_rest (Suc level) xs
     @ newline_indent level @ '']''"
| "encode level (PTuple []) = ''[]''"
| "encode level (PTuple (x # xs)) =
     ''['' @ newline_indent (Suc level) @ encode (Suc level) x @ encode_rest (Suc level) xs
     @ newline_indent level @ '']''"
| "encode level (PDict []) = ''{}''"
| "encode level (PDict ((k, v) # kvs)) =
     ''{'' @ newline_indent (Suc level) @ encode_string (key_str k) @ '': '' @ encode (Suc level) v
     @ encode_members (Suc level) kvs @ newline_indent level @ ''}''"
| "encode_rest level [] = []"
| "encode_rest level (x # xs) =
     '','' @ newline_indent level @ encode level x @ encode_rest level xs"
| "encode_members level [] = []"
| "encode_members level ((k, v) # kvs) =
     '','' @ newline_indent level @ encode_string (key_str k) @ '': '' @ encode level v
     @ encode_members level kvs"

definition json_dumps :: "pyval \<Rightarrow> string" where
  "json_dumps x = encode 0 x"

subsection \<open>The decoder\<close>

definition is_ws :: "char \<Rightarrow> bool" where
  "is_ws c \<longleftrightarrow> c = CHR '' '' \<or> c = CHR 0x09 \<or> c = CHR 0x0A \<or> c = CHR 0x0D"

definition skip_ws :: "string \<Rightarrow> string" where
  "skip_ws s = dropWhile is_ws s"

definition hex_val :: "char \<Rightarrow> nat option" where
  "hex_val c =
     (let n = (of_char c :: nat) in
      if 48 \<le> n \<and> n \<le> 57 then Some (n - 48)
      else if 97 \<le> n \<and> n \<le> 102 then Some (n - 87)
      else if 65 \<le> n \<and> n \<le> 70 then Some (n - 55)
      else None)"

definition hex4 :: "char \<Rightarrow> char \<Rightarrow> char \<Rightarrow> char \<Rightarrow> nat option" where
  "hex4 a b c d =
     (case (hex_val a, hex_val b, hex_val c, hex_val d) of
        (Some x, Some y, Some z, Some w) \<Rightarrow> Some (4096 * x + 256 * y + 16 * z + w)
      | _ \<Rightarrow> None)"

definition unescape :: "char \<Rightarrow> char option" where
  "unescape e =
     (if e = CHR 0x22 then Some (CHR 0x22)
      else if e = CHR 0x5C then Some (CHR 0x5C)
      else if e = CHR ''/'' then Some (CHR ''/'')
      else if e = CHR ''b'' then Some (CHR 0x08)
      else if e = CHR ''f'' then Some (CHR 0x0C)
      else if e = CHR ''n'' then Some (CHR 0x0A)
      else if e = CHR ''r'' then Some (CHR 0x0D)
      else if e = CHR ''t'' then Some (CHR 0x09)
      else None)"

definition cons_result :: "char \<Rightarrow> (string \<times> string) option \<Rightarrow> (string \<times> string) option" where
  "cons_result c r = (case r of None \<Rightarrow> None | Some (s, rest) \<Rightarrow> Some (c # s, rest))"

text \<open>
  The text of a string after its opening quote, up to the closing quote: the decoded
  string and what follows it.  A raw control character, an unknown escape and an
  unterminated string are errors.  A \<open>\\u\<close> escape above 255 names a character that the
  8-bit strings of this model do not have, and is refused.
\<close>

fun scanstring :: "string \<Rightarrow> (string \<times> string) option" where
  "scanstring [] = None"
| "scanstring (c # cs) =
     (if c = CHR 0x22 then Some ([], cs)
      else if c = CHR 0x5C then
        (case cs of
           [] \<Rightarrow> None
         | e # es \<Rightarrow>
             if e = CHR ''u'' then
               (case es of
                  a # b # c' # d # r \<Rightarrow>
                    (case hex4 a b c' d of
                       None \<Rightarrow> None
                     | Some v \<Rightarrow> if v < 256 then cons_result (char_of v) (scanstring r) else None)
                | _ \<Rightarrow> None)
             else
               (case unescape e of
                  None \<Rightarrow> None
                | Some ch \<Rightarrow> cons_result ch (scanstring es)))
      else if (of_char c :: nat) < 32 then None
      else cons_result c (scanstring cs))"

text \<open>The value of a run of decimal digits.\<close>

definition digits_val :: "string \<Rightarrow> nat" where
  "digits_val ds = foldl (\<lambda>a c. 10 * a + digit_val c) 0 ds"

text \<open>
  Whether a fraction or an exponent follows the integer part; the number is then a
  float, which this model does not have.
\<close>

fun float_tail :: "string \<Rightarrow> bool" where
  "float_tail (c # d # e # r) =
     ((c = CHR ''.'' \<and> is_digit d)
      \<or> ((c = CHR ''e'' \<or> c = CHR ''E'')
          \<and> (is_digit d \<or> ((d = CHR ''+'' \<or> d = CHR ''-'') \<and> is_digit e))))"
| "float_tail [c, d] = ((c = CHR ''.'' \<or> c = CHR ''e'' \<or> c = CHR ''E'') \<and> is_digit d)"
| "float_tail _ = False"

text \<open>
  The integer part \<open>0|[1-9]\d*\<close> at the head of the text: its value and what follows.
\<close>

definition scan_nat :: "string \<Rightarrow> (nat \<times> string) option" where
  "scan_nat s =
     (case takeWhile is_digit s of
        [] \<Rightarrow> None
      | d # ds \<Rightarrow>
          if d = CHR ''0'' then Some (0, tl s)
          else Some (digits_val (d # ds), dropWhile is_digit s))"

definition scan_number :: "string \<Rightarrow> (pyval \<times> string) option" where
  "scan_number s =
     (case s of
        [] \<Rightarrow> None
      | c # cs \<Rightarrow>
          (case (if c = CHR ''-'' then scan_nat cs else scan_nat s) of
             None \<Rightarrow> None
           | Some (n, rest) \<Rightarrow>
               if float_tail rest then None
               else Some (PInt (if c = CHR ''-'' then - int n else int n), rest)))"

text \<open>
  \<open>dict(pairs)\<close>: the pairs are stored one after the other; a key that is already there
  keeps its place and takes the new value.
\<close>

fun dict_set :: "('k \<times> 'v) list \<Rightarrow> 'k \<Rightarrow> 'v \<Rightarrow> ('k \<times> 'v) list" where
  "dict_set [] k v = [(k, v)]"
| "dict_set ((k', v') # kvs) k v =
     (if k' = k then (k', v) # kvs else (k', v') # dict_set kvs k v)"

definition dict_of_pairs :: "('k \<times> 'v) list \<Rightarrow> ('k \<times> 'v) list" where
  "dict_of_pairs ps = foldl (\<lambda>d (k, v). dict_set d k v) [] ps"

definition str_keys :: "(string \<times> pyval) list \<Rightarrow> (pykey \<times> pyval) list" where
  "str_keys ps = map (\<lambda>(k, v). (KStr k, v)) ps"

definition starts_with :: "string \<Rightarrow> string \<Rightarrow> bool" where
  "starts_with p s \<longleftrightarrow> take (length p) s = p"

text \<open>
  The scanner.  Its first argument bounds the number of nested calls; \<open>json_loads\<close> gives
  it the length of the text, which no run on that text exceeds.  \<open>scan_once\<close> reads one
  value at the head of the text; \<open>scan_elements\<close> reads the items of a list from the first
  item to the closing bracket, \<open>scan_members\<close> the items of a dict from the first key to
  the closing brace.
\<close>

fun scan_once :: "nat \<Rightarrow> string \<Rightarrow> (pyval \<times> string) option"
  and scan_elements :: "nat \<Rightarrow> string \<Rightarrow> (pyval list \<times> string) option"
  and scan_members :: "nat \<Rightarrow> string \<Rightarrow> ((string \<times> pyval) list \<times> string) option" where
  "scan_once 0 s = None"
| "scan_once (Suc n) s =
     (case s of
        [] \<Rightarrow> None
      | c # cs \<Rightarrow>
          if c = CHR 0x22 then
            (case scanstring cs of None \<Rightarrow> None | Some (t, rest) \<Rightarrow> Some (PStr t, rest))
          else if c = CHR ''{'' then
            (case skip_ws cs of
               [] \<Rightarrow> None
             | d # ds \<Rightarrow>
                 if d = CHR ''}'' then Some (PDict [], ds)
                 else (case scan_members n (d # ds) of
                         None \<Rightarrow> None
                       | Some (ps, rest) \<Rightarrow> Some (PDict (str_keys (dict_of_pairs ps)), rest)))
          else if c = CHR ''['' then
            (case skip_ws cs of
               [] \<Rightarrow> None
             | d # ds \<Rightarrow>
                 if d = CHR '']'' then Some (PList [], ds)
                 else (case scan_elements n (d # ds) of
                         None \<Rightarrow> None
                       | Some (vs, rest) \<Rightarrow> Some (PList vs, rest)))
          else if starts_with ''null'' s then Some (PNone, drop 4 s)
          else if starts_with ''true'' s then Some (PBool True, drop 4 s)
          else if starts_with ''false'' s then Some (PBool False, drop 5 s)
          else scan_number s)"
| "scan_elements 0 s = None"
| "scan_elements (Suc n) s =
     (case scan_once n s of
        None \<Rightarrow> None
      | Some (v, rest) \<Rightarrow>
          (case skip_ws rest of
             [] \<Rightarrow> None
           | d # ds \<Rightarrow>
               if d = CHR '']'' then Some ([v], ds)
               else if d = CHR '','' then
                 (case scan_elements n (skip_ws ds) of
                    None \<Rightarrow> None
                  | Some (vs, rest') \<Rightarrow> Some (v # vs, rest'))
               else None))"
| "scan_members 0 s = None"
| "scan_members (Suc n) s =
     (case s of
        [] \<Rightarrow> None
      | c # cs \<Rightarrow>
          if c \<noteq> CHR 0x22 then None
          else
            (case scanstring cs of
               None \<Rightarrow> None
             | Some (k, rest) \<Rightarrow>
                 (case skip_ws rest of
                    [] \<Rightarrow> None
                  | d # ds \<Rightarrow>
                      if d \<noteq> CHR '':'' then None
                      else
                        (case scan_once n (skip_ws ds) of
                           None \<Rightarrow> None
                         | Some (v, rest') \<Rightarrow>
                             (case skip_ws rest' of
                                [] \<Rightarrow> None
                              | e # es \<Rightarrow>
                                  if e = CHR ''}'' then Some ([(k, v)], es)
                                  else if e = CHR '','' then
                                    (case scan_members n (skip_ws es) of
                                       None \<Rightarrow> None
                                     | Some (ps, rest'') \<Rightarrow> Some ((k, v) # ps, rest''))
                                  else None)))))"

text \<open>
  \<open>json.loads\<close>: white space, one value, white space, and nothing more.  \<open>None\<close> stands
  for the \<open>JSONDecodeError\<close>.
\<close>

definition json_loads :: "string \<Rightarrow> pyval option" where
  "json_loads s =
     (case scan_once (length s) (skip_ws s) of
        None \<Rightarrow> None
      | Some (v, rest) \<Rightarrow> if skip_ws rest = [] then Some v else None)"



subsection \<open>Decoding what the encoder wrote\<close>







































section \<open>The world of an export: paths, files, the object store, the console, the clock\<close>

subsection \<open>Exceptions\<close>

text \<open>
  The exceptions that the calls of the module raise.  All of them are subclasses of
  \<open>Exception\<close>; the string is the message that \<open>str(e)\<close> gives.
\<close>

datatype exn =
    FileNotFoundError string
  | OSError string
  | KeyError string
  | ClientError string
  | LayoutError string
  | AttributeError string
  | TOMLDecodeError string
  | YAMLError string
  | JSONDecodeError string
  | OtherException string

fun exn_str :: "exn \<Rightarrow> string" where
  "exn_str (FileNotFoundError m) = m"
| "exn_str (OSError m) = m"
| "exn_str (KeyError m) = m"
| "exn_str (ClientError m) = m"
| "exn_str (LayoutError m) = m"
| "exn_str (AttributeError m) = m"
| "exn_str (TOMLDecodeError m) = m"
| "exn_str (YAMLError m) = m"
| "exn_str (JSONDecodeError m) = m"
| "exn_str (OtherException m) = m"

subsection \<open>Paths, as \<open>posixpath\<close> computes them\<close>

definition isabs :: "string \<Rightarrow> bool" where
  "isabs p \<longleftrightarrow> starts_with ''/'' p"

text \<open>\<open>os.path.join(a, b)\<close>: an absolute second part replaces the first.\<close>

definition path_join :: "string \<Rightarrow> string \<Rightarrow> string" where
  "path_join a b =
     (if starts_with ''/'' b then b
      else if a = [] \<or> last a = CHR ''/'' then a @ b
      else a @ ''/'' @ b)"

definition norm_step :: "nat \<Rightarrow> string list \<Rightarrow> string \<Rightarrow> string list" where
  "norm_step initial_slashes new_comps part =
     (if part = [] \<or> part = ''.'' then new_comps
      else if part \<noteq> ''..'' \<or> (initial_slashes = 0 \<and> new_comps = [])
              \<or> (new_comps \<noteq> [] \<and> last new_comps = ''..'')
      then new_comps @ [part]
      else if new_comps \<noteq> [] then butlast new_comps
      else new_comps)"

definition normpath :: "string \<Rightarrow> string" where
  "normpath path =
     (if path = [] then ''.''
      else
        let initial_slashes =
              (if starts_with ''/'' path
               then (if starts_with ''//'' path \<and> \<not> starts_with ''///'' path then 2 else 1)
               else 0 :: nat);
            comps = foldl (norm_step initial_slashes) [] (split_at (CHR ''/'') path);
            joined = replicate initial_slashes (CHR ''/'') @ join ''/'' comps
        in if joined = [] then ''.'' else joined)"

text \<open>\<open>os.path.abspath(p)\<close> in the working directory \<open>cwd\<close>.\<close>

definition abspath :: "string \<Rightarrow> string \<Rightarrow> string" where
  "abspath cwd p = normpath (if isabs p then p else path_join cwd p)"

text \<open>The directories above a normalised absolute path, the root first, and the path itself.\<close>

fun prefixes_from :: "string \<Rightarrow> string list \<Rightarrow> string list" where
  "prefixes_from base [] = []"
| "prefixes_from base (c # cs) =
     (let here = (if base = ''/'' then base @ c else base @ ''/'' @ c)
      in here # prefixes_from here cs)"

definition ancestors_and_self :: "string \<Rightarrow> string list" where
  "ancestors_and_self a = ''/'' # prefixes_from ''/'' (filter (\<lambda>c. c \<noteq> []) (split_at (CHR ''/'') a))"

definition parent_dir :: "string \<Rightarrow> string" where
  "parent_dir a = last (butlast (''/'' # ancestors_and_self a))"

subsection \<open>The file system\<close>

text \<open>
  The working directory, the directories and the files that exist (by their normalised
  absolute paths, without symbolic links), and the paths at which the process may not
  create or write anything.
\<close>

record filesystem =
  fs_cwd :: string
  fs_dirs :: "string set"
  fs_files :: "string \<rightharpoonup> string"
  fs_denied :: "string set"

text \<open>
  \<open>os.makedirs(path, exist_ok=True)\<close>: the missing directories are made from the top
  down; a file in the way or a refused path raises, and what was made before stays.
\<close>

fun make_each :: "filesystem \<Rightarrow> string list \<Rightarrow> exn option \<times> filesystem" where
  "make_each f [] = (None, f)"
| "make_each f (d # ds) =
     (if d \<in> fs_dirs f then make_each f ds
      else if d \<in> dom (fs_files f) then (Some (OSError (''[Errno 17] File exists: '' @ [CHR 0x27] @ d @ [CHR 0x27])), f)
      else if d \<in> fs_denied f then (Some (OSError (''[Errno 13] Permission denied: '' @ [CHR 0x27] @ d @ [CHR 0x27])), f)
      else make_each (f\<lparr>fs_dirs := insert d (fs_dirs f)\<rparr>) ds)"

definition makedirs :: "filesystem \<Rightarrow> string \<Rightarrow> exn option \<times> filesystem" where
  "makedirs f path = make_each f (ancestors_and_self (abspath (fs_cwd f) path))"

text \<open>
  Opening a file for writing and writing the whole content: the directory of the file
  must exist, and the path must be neither a directory nor refused.
\<close>

definition write_file :: "filesystem \<Rightarrow> string \<Rightarrow> string \<Rightarrow> exn + filesystem" where
  "write_file f path content =
     (let a = abspath (fs_cwd f) path
      in if a \<in> fs_dirs f then Inl (OSError (''[Errno 21] Is a directory: '' @ [CHR 0x27] @ path @ [CHR 0x27]))
         else if parent_dir a \<notin> fs_dirs f
           then Inl (FileNotFoundError (''[Errno 2] No such file or directory: '' @ [CHR 0x27] @ path @ [CHR 0x27]))
         else if a \<in> fs_denied f then Inl (OSError (''[Errno 13] Permission denied: '' @ [CHR 0x27] @ path @ [CHR 0x27]))
         else Inr (f\<lparr>fs_files := (fs_files f)(a \<mapsto> content)\<rparr>))"

definition read_file :: "filesystem \<Rightarrow> string \<Rightarrow> exn + string" where
  "read_file f path =
     (let a = abspath (fs_cwd f) path
      in if a \<in> fs_dirs f then Inl (OSError (''[Errno 21] Is a directory: '' @ [CHR 0x27] @ path @ [CHR 0x27]))
         else if a \<in> fs_denied f then Inl (OSError (''[Errno 13] Permission denied: '' @ [CHR 0x27] @ path @ [CHR 0x27]))
         else (case fs_files f a of
                 None \<Rightarrow> Inl (FileNotFoundError (''[Errno 2] No such file or directory: '' @ [CHR 0x27] @ path @ [CHR 0x27]))
               | Some content \<Rightarrow> Inr content))"

subsection \<open>The clock\<close>

record datetime =
  dt_year :: nat
  dt_month :: nat
  dt_day :: nat
  dt_hour :: nat
  dt_minute :: nat
  dt_second :: nat

definition zero_pad :: "nat \<Rightarrow> nat \<Rightarrow> string" where
  "zero_pad width n = replicate (width - length (str_nat n)) (CHR ''0'') @ str_nat n"

text \<open>\<open>strftime("%Y%m%d_%H%M")\<close>, the stamp of the file names.\<close>

definition strftime_stamp :: "datetime \<Rightarrow> string" where
  "strftime_stamp t =
     zero_pad 4 (dt_year t) @ zero_pad 2 (dt_month t) @ zero_pad 2 (dt_day t) @ ''_''
     @ zero_pad 2 (dt_hour t) @ zero_pad 2 (dt_minute t)"

text \<open>The format \<open>%Y-%m-%d %H:%M:%S\<close> of the footer lines.\<close>

definition strftime_footer :: "datetime \<Rightarrow> string" where
  "strftime_footer t =
     zero_pad 4 (dt_year t) @ ''-'' @ zero_pad 2 (dt_month t) @ ''-'' @ zero_pad 2 (dt_day t)
     @ '' '' @ zero_pad 2 (dt_hour t) @ '':'' @ zero_pad 2 (dt_minute t) @ '':''
     @ zero_pad 2 (dt_second t)"

subsection \<open>The object store\<close>

text \<open>
  A boto3 session, as far as the module uses it: \<open>session.client("s3")\<close> may raise, and
  \<open>put_object\<close> of the client may raise for a bucket, a key, a body and a content type.
  \<open>None\<close> is the call that returns.
\<close>

record Session =
  client_error :: "exn option"
  put_object_error :: "string \<Rightarrow> string \<Rightarrow> string \<Rightarrow> string option \<Rightarrow> exn option"

record put_call =
  put_bucket :: string
  put_key :: string
  put_body :: string
  put_content_type :: "string option"

subsection \<open>The world\<close>

text \<open>
  What a call can change or read: the file system, the lines printed on the console, the
  \<open>put_object\<close> calls made, and the clock (which stands still during one call).
\<close>

record world =
  w_fs :: filesystem
  w_console :: "string list"
  w_puts :: "put_call list"
  w_clock :: datetime

definition console_print :: "world \<Rightarrow> string \<Rightarrow> world" where
  "console_print w line = w\<lparr>w_console := w_console w @ [line]\<rparr>"

text \<open>
  The result of a call: the exception that leaves it, or the value it returns, and the
  world after it.  \<open>try_except\<close> is a \<open>try\<close> block with one handler for \<open>Exception\<close>.
\<close>

type_synonym 'a outcome = "(exn + 'a) \<times> world"

definition try_except :: "'a outcome \<Rightarrow> (exn \<Rightarrow> world \<Rightarrow> 'a outcome) \<Rightarrow> 'a outcome" where
  "try_except body handler =
     (case body of (Inl e, w) \<Rightarrow> handler e w | (Inr v, w) \<Rightarrow> (Inr v, w))"

text \<open>Truth of an optional string in a condition: \<open>None\<close> and the empty string are false.\<close>

fun truthy :: "string option \<Rightarrow> bool" where
  "truthy None = False"
| "truthy (Some s) = (s \<noteq> [])"

definition ends_with :: "string \<Rightarrow> string \<Rightarrow> bool" where
  "ends_with suffix s \<longleftrightarrow> starts_with (rev suffix) (rev s)"

definition upload_to_s3 ::
  "string \<Rightarrow> string \<Rightarrow> string \<Rightarrow> Session \<Rightarrow> string option \<Rightarrow> world \<Rightarrow> string option outcome" where
  "upload_to_s3 content bucket key session content_type w =
     try_except
       (case client_error session of
          Some e \<Rightarrow> (Inl e, w)
        | None \<Rightarrow>
            let content_type' =
                  (if \<not> truthy content_type then
                     (if ends_with ''.pdf'' key then Some ''application/pdf''
                      else if ends_with ''.csv'' key then Some ''text/csv''
                      else if ends_with ''.json'' key then Some ''application/json''
                      else content_type)
                   else content_type);
                w' = w\<lparr>w_puts := w_puts w @ [\<lparr>put_bucket = bucket, put_key = key, put_body = content,
                                                put_content_type = content_type'\<rparr>]\<rparr>
            in (case put_object_error session bucket key content content_type' of
                  Some e \<Rightarrow> (Inl e, w')
                | None \<Rightarrow> (Inr (Some (''s3://'' @ bucket @ ''/'' @ key)), w')))
       (\<lambda>e w. (Inr None, console_print w (''[bold red]Error uploading to S3: '' @ exn_str e @ ''[/]'')))"

text \<open>The object key: the prefix and the file name, without leading slashes.\<close>

definition lstrip_slash :: "string \<Rightarrow> string" where
  "lstrip_slash s = dropWhile (\<lambda>c. c = CHR ''/'') s"

definition s3_key_of :: "string option \<Rightarrow> string \<Rightarrow> string" where
  "s3_key_of s3_prefix base_filename =
     lstrip_slash (if truthy s3_prefix then the s3_prefix @ ''/'' @ base_filename else base_filename)"

text \<open>
  The branch \<open>if s3_bucket and session\<close> of every export, after the content is there: the
  upload, the line of success, and the location that the upload returned.
\<close>

definition upload_and_report ::
  "string \<Rightarrow> string \<Rightarrow> string option \<Rightarrow> string \<Rightarrow> Session \<Rightarrow> string \<Rightarrow> world \<Rightarrow> string option outcome" where
  "upload_and_report content s3_bucket s3_prefix base_filename session content_type w =
     (let s3_key = s3_key_of s3_prefix base_filename
      in case upload_to_s3 content s3_bucket s3_key session (Some content_type) w of
           (Inl e, w') \<Rightarrow> (Inl e, w')
         | (Inr s3_path, w') \<Rightarrow>
             (Inr s3_path,
              if truthy s3_path
              then console_print w' (''[bright_green]Successfully exported to S3: '' @ the s3_path @ ''[/]'')
              else w'))"

section \<open>The export functions\<close>

text \<open>
  What the module takes from \<open>pdf_utils\<close> and from the layout engine: the two helpers
  that turn row data into bullet texts, and \<open>doc.build\<close>, which lays the flowables out
  into the bytes of a PDF or raises.
\<close>

record pdf_env =
  split_to_items :: "string \<Rightarrow> string list"
  formatServicesForList :: "(string \<times> pyfloat) list \<Rightarrow> string list"
  render :: "flowable list \<Rightarrow> exn + string"

text \<open>
  The condition \<open>s3_bucket and session\<close> of every export: a bucket name that is not empty
  and a session object.
\<close>

definition to_s3 :: "string option \<Rightarrow> Session option \<Rightarrow> bool" where
  "to_s3 s3_bucket session \<longleftrightarrow> truthy s3_bucket \<and> session \<noteq> None"

text \<open>\<open>row[key]\<close> on a dict: a missing key raises \<open>KeyError\<close>.\<close>

definition dict_item :: "AuditRow \<Rightarrow> string \<Rightarrow> exn + string" where
  "dict_item row key = (case row key of None \<Rightarrow> Inl (KeyError key) | Some v \<Rightarrow> Inr v)"

definition audit_sections :: "(string \<Rightarrow> string list) \<Rightarrow> AuditRow \<Rightarrow> (string \<times> string list) list" where
  "audit_sections split row =
     [(''Untagged Resources'', split (dict_get row ''untagged_resources'' '''')),
      (''Stopped EC2 Instances'', split (dict_get row ''stopped_instances'' '''')),
      (''Unused Volumes'', split (dict_get row ''unused_volumes'' '''')),
      (''Unused EIPs'', split (dict_get row ''unused_eips'' '''')),
      (''Budget Alerts'', split (dict_get row ''budget_alerts'' ''''))]"

definition audit_row_elements ::
  "(string \<Rightarrow> string list) \<Rightarrow> nat \<Rightarrow> nat \<Rightarrow> AuditRow \<Rightarrow> exn + flowable list" where
  "audit_row_elements split n idx row =
     (case dict_item row ''profile'' of
        Inl e \<Rightarrow> Inl e
      | Inr p \<Rightarrow>
          (case dict_item row ''account_id'' of
             Inl e \<Rightarrow> Inl e
           | Inr a \<Rightarrow>
               Inr ([HeaderCard (header_text p a), Spacer 1 6]
                    @ concat (map (\<lambda>(title, items). [MiniHeader title, BulletList items, Spacer 1 6])
                                  (audit_sections split row))
                    @ (if int idx < int n - 1 then [Spacer 1 10] else []))))"

fun audit_rows_elements ::
  "(string \<Rightarrow> string list) \<Rightarrow> nat \<Rightarrow> nat \<Rightarrow> AuditRow list \<Rightarrow> exn + flowable list" where
  "audit_rows_elements split n idx [] = Inr []"
| "audit_rows_elements split n idx (row # rows) =
     (case audit_row_elements split n idx row of
        Inl e \<Rightarrow> Inl e
      | Inr els \<Rightarrow>
          (case audit_rows_elements split n (Suc idx) rows of
             Inl e \<Rightarrow> Inl e
           | Inr others \<Rightarrow> Inr (els @ others)))"

definition audit_elements ::
  "(string \<Rightarrow> string list) \<Rightarrow> string \<Rightarrow> AuditRow list \<Rightarrow> exn + flowable list" where
  "audit_elements split footer_stamp audit_data_list =
     (case audit_rows_elements split (length audit_data_list) 0 audit_data_list of
        Inl e \<Rightarrow> Inl e
      | Inr els \<Rightarrow>
          Inr ([Title ''AWS FinOps Dashboard (Audit Report)'', Spacer 1 8] @ els
               @ [Spacer 1 8,
                  FooterParagraph ''Note: This report lists untagged EC2, RDS, Lambda, ELBv2 only.'',
                  FooterParagraph (''This audit report is generated using AWS FinOps Dashboard (CLI) ''
                                   @ [CHR 0xA9] @ '' 2025 on '' @ footer_stamp)]))"

text \<open>
  \<open>doc.build(elements)\<close> of a document on a file name: the layout, then the file written
  in one piece.
\<close>

definition build_to_file ::
  "pdf_env \<Rightarrow> string \<Rightarrow> flowable list \<Rightarrow> world \<Rightarrow> unit outcome" where
  "build_to_file env output_filename elements w =
     (case render env elements of
        Inl e \<Rightarrow> (Inl e, w)
      | Inr pdf \<Rightarrow>
          (case write_file (w_fs w) output_filename pdf of
             Inl e \<Rightarrow> (Inl e, w)
           | Inr f \<Rightarrow> (Inr (), w\<lparr>w_fs := f\<rparr>)))"

text \<open>The text sent to the object store is its UTF-8 encoding.\<close>

definition utf8_char :: "char \<Rightarrow> string" where
  "utf8_char c =
     (let n = (of_char c :: nat)
      in if n < 128 then [c] else [char_of (192 + n div 64), char_of (128 + n mod 64)])"

definition utf8_encode :: "string \<Rightarrow> string" where
  "utf8_encode s = concat (map utf8_char s)"

definition export_audit_report_to_pdf ::
  "pdf_env \<Rightarrow> AuditRow list \<Rightarrow> string \<Rightarrow> string option \<Rightarrow> string option \<Rightarrow> string option
     \<Rightarrow> Session option \<Rightarrow> world \<Rightarrow> string option outcome" where
  "export_audit_report_to_pdf env audit_data_list file_name path s3_bucket s3_prefix session w =
     try_except
       (let timestamp = strftime_stamp (w_clock w);
            base_filename = file_name @ ''_'' @ timestamp @ ''.pdf''
        in if to_s3 s3_bucket session then
             (case audit_elements (split_to_items env) (strftime_footer (w_clock w)) audit_data_list of
                Inl e \<Rightarrow> (Inl e, w)
              | Inr elements \<Rightarrow>
                  (case render env elements of
                     Inl e \<Rightarrow> (Inl e, w)
                   | Inr pdf_content \<Rightarrow>
                       upload_and_report pdf_content (the s3_bucket) s3_prefix base_filename
                         (the session) ''application/pdf'' w))
           else
             (let output_filename =
                    (if truthy path then path_join (the path) base_filename else base_filename)
              in case audit_elements (split_to_items env) (strftime_footer (w_clock w)) audit_data_list of
                   Inl e \<Rightarrow> (Inl e, w)
                 | Inr elements \<Rightarrow>
                     (case build_to_file env output_filename elements w of
                        (Inl e, w') \<Rightarrow> (Inl e, w')
                      | (Inr u, w') \<Rightarrow>
                          (Inr (Some (abspath (fs_cwd (w_fs w')) output_filename)), w'))))
       (\<lambda>e w. (Inr None,
                console_print w (''[bold red]Error exporting audit report to PDF: '' @ exn_str e @ ''[/]'')))"

text \<open>
  The sink of the CSV export and of the two JSON exports, which is the same code three
  times: the upload, or the directory made, the file written and its name returned as
  it was joined.
\<close>

definition store_text ::
  "string \<Rightarrow> string \<Rightarrow> string \<Rightarrow> string option \<Rightarrow> string option \<Rightarrow> string option
     \<Rightarrow> Session option \<Rightarrow> world \<Rightarrow> string option outcome" where
  "store_text content content_type base_filename path s3_bucket s3_prefix session w =
     (if to_s3 s3_bucket session then
        upload_and_report (utf8_encode content) (the s3_bucket) s3_prefix base_filename
          (the session) content_type w
      else if truthy path then
        (case makedirs (w_fs w) (the path) of
           (Some e, f) \<Rightarrow> (Inl e, w\<lparr>w_fs := f\<rparr>)
         | (None, f) \<Rightarrow>
             (let output_filename = path_join (the path) base_filename
              in case write_file f output_filename content of
                   Inl e \<Rightarrow> (Inl e, w\<lparr>w_fs := f\<rparr>)
                 | Inr f' \<Rightarrow> (Inr (Some output_filename), w\<lparr>w_fs := f'\<rparr>)))
      else
        (case write_file (w_fs w) base_filename content of
           Inl e \<Rightarrow> (Inl e, w)
         | Inr f' \<Rightarrow> (Inr (Some base_filename), w\<lparr>w_fs := f'\<rparr>)))"

definition export_audit_report_to_csv ::
  "AuditRow list \<Rightarrow> string \<Rightarrow> string option \<Rightarrow> string option \<Rightarrow> string option
     \<Rightarrow> Session option \<Rightarrow> world \<Rightarrow> string option outcome" where
  "export_audit_report_to_csv audit_data_list file_name path s3_bucket s3_prefix session w =
     try_except
       (let timestamp = strftime_stamp (w_clock w);
            base_filename = file_name @ ''_'' @ timestamp @ ''.csv''
        in store_text (audit_csv audit_data_list) ''text/csv'' base_filename path s3_bucket s3_prefix
             session w)
       (\<lambda>e w. (Inr None,
                console_print w (''[bold red]Error exporting audit report to CSV: '' @ exn_str e @ ''[/]'')))"

definition export_audit_report_to_json ::
  "pyval \<Rightarrow> string \<Rightarrow> string option \<Rightarrow> string option \<Rightarrow> string option
     \<Rightarrow> Session option \<Rightarrow> world \<Rightarrow> string option outcome" where
  "export_audit_report_to_json raw_audit_data file_name path s3_bucket s3_prefix session w =
     try_except
       (let timestamp = strftime_stamp (w_clock w);
            base_filename = file_name @ ''_'' @ timestamp @ ''.json''
        in store_text (json_dumps raw_audit_data) ''application/json'' base_filename path s3_bucket
             s3_prefix session w)
       (\<lambda>e w. (Inr None,
                console_print w (''[bold red]Error exporting audit report to JSON: '' @ exn_str e @ ''[/]'')))"

definition export_trend_data_to_json ::
  "pyval \<Rightarrow> string \<Rightarrow> string option \<Rightarrow> string option \<Rightarrow> string option
     \<Rightarrow> Session option \<Rightarrow> world \<Rightarrow> string option outcome" where
  "export_trend_data_to_json trend_data file_name path s3_bucket s3_prefix session w =
     try_except
       (let timestamp = strftime_stamp (w_clock w);
            base_filename = file_name @ ''_'' @ timestamp @ ''.json''
        in store_text (json_dumps trend_data) ''application/json'' base_filename path s3_bucket
             s3_prefix session w)
       (\<lambda>e w. (Inr None,
                console_print w (''[bold red]Error exporting trend data to JSON: '' @ exn_str e @ ''[/]'')))"

definition export_cost_dashboard_to_pdf ::
  "pdf_env \<Rightarrow> ProfileData list \<Rightarrow> string \<Rightarrow> string option \<Rightarrow> string \<Rightarrow> string
     \<Rightarrow> string option \<Rightarrow> string option \<Rightarrow> Session option \<Rightarrow> world \<Rightarrow> string option outcome" where
  "export_cost_dashboard_to_pdf env data filename output_dir previous_period_dates
       current_period_dates s3_bucket s3_prefix session w =
     try_except
       (let timestamp = strftime_stamp (w_clock w);
            base_filename = filename @ ''_'' @ timestamp @ ''.pdf'';
            elements = cost_elements (formatServicesForList env) previous_period_dates
                         current_period_dates (strftime_footer (w_clock w)) data
        in if to_s3 s3_bucket session then
             (case render env elements of
                Inl e \<Rightarrow> (Inl e, w)
              | Inr pdf_content \<Rightarrow>
                  upload_and_report pdf_content (the s3_bucket) s3_prefix base_filename
                    (the session) ''application/pdf'' w)
           else if truthy output_dir then
             (case makedirs (w_fs w) (the output_dir) of
                (Some e, f) \<Rightarrow> (Inl e, w\<lparr>w_fs := f\<rparr>)
              | (None, f) \<Rightarrow>
                  (let output_filename = path_join (the output_dir) base_filename
                   in case build_to_file env output_filename elements (w\<lparr>w_fs := f\<rparr>) of
                        (Inl e, w') \<Rightarrow> (Inl e, w')
                      | (Inr u, w') \<Rightarrow>
                          (Inr (Some (abspath (fs_cwd (w_fs w')) output_filename)), w')))
           else
             (case build_to_file env base_filename elements w of
                (Inl e, w') \<Rightarrow> (Inl e, w')
              | (Inr u, w') \<Rightarrow> (Inr (Some (abspath (fs_cwd (w_fs w')) base_filename)), w')))
       (\<lambda>e w. (Inr None, console_print w (''[bold red]Error exporting to PDF: '' @ exn_str e @ ''[/]'')))"

section \<open>Loading a configuration file\<close>

text \<open>
  The three decoders are libraries; each gives the decoded value or raises its decode
  error.  \<open>tomllib\<close> is \<open>None\<close> on a Python before 3.11 without \<open>tomli\<close>.
\<close>

record loaders =
  tomllib_present :: bool
  toml_load :: "string \<Rightarrow> exn + pyval"
  yaml_load :: "string \<Rightarrow> exn + pyval"
  json_load :: "string \<Rightarrow> exn + pyval"

text \<open>
  The extension that \<open>os.path.splitext\<close> finds: from the last dot of the last path
  component, unless only dots stand before it.
\<close>

definition splitext_ext :: "string \<Rightarrow> string" where
  "splitext_ext p =
     (let base = rev (takeWhile (\<lambda>c. c \<noteq> CHR ''/'') (rev p));
          after_dot = rev (takeWhile (\<lambda>c. c \<noteq> CHR ''.'') (rev base));
          stem = rev (tl (dropWhile (\<lambda>c. c \<noteq> CHR ''.'') (rev base)))
      in if CHR ''.'' \<in> set base \<and> list_ex (\<lambda>c. c \<noteq> CHR ''.'') stem then CHR ''.'' # after_dot else [])"

definition lower_char :: "char \<Rightarrow> char" where
  "lower_char c =
     (let n = (of_char c :: nat)
      in if (65 \<le> n \<and> n \<le> 90) \<or> (192 \<le> n \<and> n \<le> 222 \<and> n \<noteq> 215) then char_of (n + 32) else c)"

fun is_dict :: "pyval \<Rightarrow> bool" where
  "is_dict (PDict kvs) = True"
| "is_dict _ = False"

text \<open>The part of a branch after the decoder has returned.\<close>

definition dict_or_error :: "string \<Rightarrow> string \<Rightarrow> pyval \<Rightarrow> world \<Rightarrow> pyval option outcome" where
  "dict_or_error format file_path loaded_data w =
     (if is_dict loaded_data then (Inr (Some loaded_data), w)
      else (Inr None,
            console_print w (''[bold red]Error: '' @ format @ '' file '' @ file_path
                             @ '' did not load as a dictionary.[/]'')))"

text \<open>
  The handlers of \<open>load_config_file\<close> in their order.  Python evaluates the class of a
  handler when it tries the handler: with \<open>tomllib\<close> being \<open>None\<close>, the second handler
  \<open>except tomllib.TOMLDecodeError\<close> raises \<open>AttributeError\<close> for every exception that the
  first one did not take.
\<close>

definition config_handlers :: "loaders \<Rightarrow> string \<Rightarrow> exn \<Rightarrow> world \<Rightarrow> pyval option outcome" where
  "config_handlers env file_path e w =
     (case e of
        FileNotFoundError m \<Rightarrow>
          (Inr None, console_print w (''[bold red]Error: Configuration file not found: '' @ file_path @ ''[/]''))
      | _ \<Rightarrow>
          if \<not> tomllib_present env
          then (Inl (AttributeError ([CHR 0x27] @ ''NoneType'' @ [CHR 0x27] @ '' object has no attribute '' @ [CHR 0x27] @ ''TOMLDecodeError'' @ [CHR 0x27])), w)
          else
            (case e of
               TOMLDecodeError m \<Rightarrow>
                 (Inr None, console_print w (''[bold red]Error decoding TOML file '' @ file_path @ '': '' @ m @ ''[/]''))
             | YAMLError m \<Rightarrow>
                 (Inr None, console_print w (''[bold red]Error decoding YAML file '' @ file_path @ '': '' @ m @ ''[/]''))
             | JSONDecodeError m \<Rightarrow>
                 (Inr None, console_print w (''[bold red]Error decoding JSON file '' @ file_path @ '': '' @ m @ ''[/]''))
             | _ \<Rightarrow>
                 (Inr None, console_print w (''[bold red]Error loading configuration file '' @ file_path
                                             @ '': '' @ exn_str e @ ''[/]''))))"

definition load_config_file :: "loaders \<Rightarrow> string \<Rightarrow> world \<Rightarrow> pyval option outcome" where
  "load_config_file env file_path w =
     (let file_extension = map lower_char (splitext_ext file_path)
      in try_except
           (case read_file (w_fs w) file_path of
              Inl e \<Rightarrow> (Inl e, w)
            | Inr content \<Rightarrow>
                if file_extension = ''.toml'' then
                  (if \<not> tomllib_present env then
                     (Inr None,
                      console_print w ''[bold red]Error: TOML library (tomli) not installed for Python < 3.11. Please install it.[/]'')
                   else
                     (case toml_load env content of
                        Inl e \<Rightarrow> (Inl e, w)
                      | Inr loaded_data \<Rightarrow> dict_or_error ''TOML'' file_path loaded_data w))
                else if file_extension = ''.yaml'' \<or> file_extension = ''.yml'' then
                  (case yaml_load env content of
                     Inl e \<Rightarrow> (Inl e, w)
                   | Inr loaded_data \<Rightarrow> dict_or_error ''YAML'' file_path loaded_data w)
                else if file_extension = ''.json'' then
                  (case json_load env content of
                     Inl e \<Rightarrow> (Inl e, w)
                   | Inr loaded_data \<Rightarrow> dict_or_error ''JSON'' file_path loaded_data w)
                else
                  (Inr None,
                   console_print w (''[bold red]Error: Unsupported configuration file format: ''
                                    @ file_extension @ ''[/]'')))
           (config_handlers env file_path))"

section \<open>Properties of the exports\<close>

text \<open>The object key in the words of the specification.\<close>

definition spec_key :: "string option \<Rightarrow> string \<Rightarrow> string" where
  "spec_key p f = lstrip_slash (case p of None \<Rightarrow> f | Some p' \<Rightarrow> p' @ ''/'' @ f)"

lemma s3_key_of_spec: "s3_key_of p f = spec_key p f"
proof (cases p)
  case None
  then show ?thesis by (simp add: s3_key_of_def spec_key_def)
next
  case (Some p')
  then show ?thesis by (cases "p' = []") (simp_all add: s3_key_of_def spec_key_def lstrip_slash_def)
qed

lemma try_except_returns:
  "try_except (Inr v, w) handler = (Inr v, w)"
  "try_except (Inl e, w) handler = handler e w"
  by (simp_all add: try_except_def)

definition the_put :: "string \<Rightarrow> string \<Rightarrow> string \<Rightarrow> string \<Rightarrow> put_call" where
  "the_put b k body ct = \<lparr>put_bucket = b, put_key = k, put_body = body, put_content_type = Some ct\<rparr>"

lemma upload_to_s3_cases:
  assumes "ct \<noteq> []"
  shows "upload_to_s3 content b k s (Some ct) w =
     (case client_error s of
        Some e \<Rightarrow> (Inr None, console_print w (''[bold red]Error uploading to S3: '' @ exn_str e @ ''[/]''))
      | None \<Rightarrow>
          (case put_object_error s b k content (Some ct) of
             Some e \<Rightarrow> (Inr None, console_print (w\<lparr>w_puts := w_puts w @ [the_put b k content ct]\<rparr>)
                                   (''[bold red]Error uploading to S3: '' @ exn_str e @ ''[/]''))
           | None \<Rightarrow> (Inr (Some (''s3://'' @ b @ ''/'' @ k)), w\<lparr>w_puts := w_puts w @ [the_put b k content ct]\<rparr>)))"
  using assms
  by (simp add: upload_to_s3_def try_except_def the_put_def Let_def split: option.splits)

lemma upload_and_report_cases:
  assumes "ct \<noteq> []"
  shows "upload_and_report content b p f s ct w =
     (case client_error s of
        Some e \<Rightarrow> (Inr None, console_print w (''[bold red]Error uploading to S3: '' @ exn_str e @ ''[/]''))
      | None \<Rightarrow>
          (case put_object_error s b (spec_key p f) content (Some ct) of
             Some e \<Rightarrow> (Inr None, console_print (w\<lparr>w_puts := w_puts w @ [the_put b (spec_key p f) content ct]\<rparr>)
                                   (''[bold red]Error uploading to S3: '' @ exn_str e @ ''[/]''))
           | None \<Rightarrow> (Inr (Some (''s3://'' @ b @ ''/'' @ spec_key p f)),
                       console_print (w\<lparr>w_puts := w_puts w @ [the_put b (spec_key p f) content ct]\<rparr>)
                         (''[bright_green]Successfully exported to S3: '' @ ''s3://'' @ b @ ''/'' @ spec_key p f @ ''[/]''))))"
  by (simp add: upload_and_report_def upload_to_s3_cases [OF assms] s3_key_of_spec Let_def
      split: option.splits)

lemma upload_and_report_facts:
  assumes "ct \<noteq> []"
  shows "\<exists>r w'. upload_and_report content b p f s ct w = (Inr r, w')
      \<and> (r = None \<or> r = Some (''s3://'' @ b @ ''/'' @ spec_key p f))
      \<and> (r = None \<longrightarrow> w_console w' \<noteq> w_console w)
      \<and> (client_error s = None \<and> put_object_error s b (spec_key p f) content (Some ct) = None
            \<longrightarrow> r = Some (''s3://'' @ b @ ''/'' @ spec_key p f))
      \<and> w_fs w' = w_fs w
      \<and> (w_puts w' = w_puts w \<or> w_puts w' = w_puts w @ [the_put b (spec_key p f) content ct])
      \<and> (client_error s = None \<longrightarrow> w_puts w' = w_puts w @ [the_put b (spec_key p f) content ct])"
proof (cases "client_error s")
  case (Some e)
  then show ?thesis
    by (simp add: upload_and_report_cases [OF assms] console_print_def)
next
  case None
  show ?thesis
  proof (cases "put_object_error s b (spec_key p f) content (Some ct)")
    case (Some e)
    with None show ?thesis
      by (simp add: upload_and_report_cases [OF assms] console_print_def)
  next
    case no_error: None
    with None show ?thesis
      by (simp add: upload_and_report_cases [OF assms] console_print_def)
  qed
qed

lemma to_s3_session: "truthy b \<Longrightarrow> to_s3 b (Some s)"
  by (simp add: to_s3_def)

lemma try_except_upload:
  assumes "ct \<noteq> []"
  shows "try_except (upload_and_report content b p f s ct w) handler = upload_and_report content b p f s ct w"
proof -
  obtain r w' where "upload_and_report content b p f s ct w = (Inr r, w')"
    using upload_and_report_facts [OF assms] by blast
  then show ?thesis by (simp add: try_except_def)
qed

definition base_name :: "string \<Rightarrow> string \<Rightarrow> world \<Rightarrow> string" where
  "base_name file_name ext w = file_name @ ''_'' @ strftime_stamp (w_clock w) @ ext"

lemma export_csv_remote:
  assumes "truthy b"
  shows "export_audit_report_to_csv rows name path b p (Some s) w
         = upload_and_report (utf8_encode (audit_csv rows)) (the b) p (base_name name ''.csv'' w) s ''text/csv'' w"
  using assms by (simp add: export_audit_report_to_csv_def store_text_def try_except_upload base_name_def to_s3_session)

lemma export_audit_json_remote:
  assumes "truthy b"
  shows "export_audit_report_to_json x name path b p (Some s) w
         = upload_and_report (utf8_encode (json_dumps x)) (the b) p (base_name name ''.json'' w) s ''application/json'' w"
  using assms by (simp add: export_audit_report_to_json_def store_text_def try_except_upload base_name_def to_s3_session)

lemma export_trend_json_remote:
  assumes "truthy b"
  shows "export_trend_data_to_json x name path b p (Some s) w
         = upload_and_report (utf8_encode (json_dumps x)) (the b) p (base_name name ''.json'' w) s ''application/json'' w"
  using assms by (simp add: export_trend_data_to_json_def store_text_def try_except_upload base_name_def to_s3_session)

lemma export_audit_pdf_remote:
  assumes "truthy b"
  shows "export_audit_report_to_pdf env rows name path b p (Some s) w
         = (case audit_elements (split_to_items env) (strftime_footer (w_clock w)) rows of
              Inl e \<Rightarrow> (Inr None, console_print w (''[bold red]Error exporting audit report to PDF: '' @ exn_str e @ ''[/]''))
            | Inr elements \<Rightarrow>
                (case render env elements of
                   Inl e \<Rightarrow> (Inr None, console_print w (''[bold red]Error exporting audit report to PDF: '' @ exn_str e @ ''[/]''))
                 | Inr pdf \<Rightarrow> upload_and_report pdf (the b) p (base_name name ''.pdf'' w) s ''application/pdf'' w))"
  using assms
  by (simp add: export_audit_report_to_pdf_def try_except_upload try_except_returns base_name_def
      to_s3_session split: sum.splits)

lemma export_cost_pdf_remote:
  assumes "truthy b"
  shows "export_cost_dashboard_to_pdf env data name dir prev cur b p (Some s) w
         = (case render env (cost_elements (formatServicesForList env) prev cur (strftime_footer (w_clock w)) data) of
              Inl e \<Rightarrow> (Inr None, console_print w (''[bold red]Error exporting to PDF: '' @ exn_str e @ ''[/]''))
            | Inr pdf \<Rightarrow> upload_and_report pdf (the b) p (base_name name ''.pdf'' w) s ''application/pdf'' w)"
  using assms
  by (simp add: export_cost_dashboard_to_pdf_def try_except_upload try_except_returns base_name_def
      to_s3_session Let_def split: sum.splits)

text \<open>
  What a call that goes to the object store may end in: no location and a new line on
  the console, or the location of the object; and at most one \<open>put_object\<close>, on that
  bucket and key.
\<close>

definition uploads_to :: "string \<Rightarrow> string \<Rightarrow> world \<Rightarrow> string option outcome \<Rightarrow> bool" where
  "uploads_to b k w r \<longleftrightarrow>
     ((fst r = Inr None \<and> w_console (snd r) \<noteq> w_console w)
      \<or> fst r = Inr (Some (''s3://'' @ b @ ''/'' @ k)))
     \<and> (w_puts (snd r) = w_puts w
        \<or> (\<exists>body ct. w_puts (snd r) = w_puts w @ [the_put b k body ct]))"

text \<open>What such a call leaves alone: every file and directory; and it makes one put at most.\<close>

definition only_puts :: "world \<Rightarrow> string option outcome \<Rightarrow> bool" where
  "only_puts w r \<longleftrightarrow>
     w_fs (snd r) = w_fs w \<and> length (w_puts (snd r)) \<le> Suc (length (w_puts w))"

lemma upload_and_report_uploads_to:
  assumes "ct \<noteq> []"
  shows "uploads_to b (spec_key p f) w (upload_and_report content b p f s ct w)"
    and "only_puts w (upload_and_report content b p f s ct w)"
proof -
  obtain r w' where f: "upload_and_report content b p f s ct w = (Inr r, w')"
      "r = None \<or> r = Some (''s3://'' @ b @ ''/'' @ spec_key p f)"
      "r = None \<longrightarrow> w_console w' \<noteq> w_console w"
      "w_fs w' = w_fs w"
      "w_puts w' = w_puts w \<or> w_puts w' = w_puts w @ [the_put b (spec_key p f) content ct]"
    using upload_and_report_facts [OF assms, of content b p f s w] by blast
  show "uploads_to b (spec_key p f) w (upload_and_report content b p f s ct w)"
    unfolding uploads_to_def using f by auto
  show "only_puts w (upload_and_report content b p f s ct w)"
    unfolding only_puts_def using f by auto
qed

lemma failed_uploads_to:
  "uploads_to b k w (Inr None, console_print w line)" "only_puts w (Inr None, console_print w line)"
  by (simp_all add: uploads_to_def only_puts_def console_print_def)

section \<open>A concrete world for the examples\<close>

text \<open>
  The 2nd of January 2025, 03:04:05; a home directory without a \<open>reports\<close> directory; a
  layout engine that returns a fixed document; a session whose uploads succeed.
\<close>

definition clock0 :: datetime where
  "clock0 = \<lparr>dt_year = 2025, dt_month = 1, dt_day = 2, dt_hour = 3, dt_minute = 4, dt_second = 5\<rparr>"

definition fs0 :: filesystem where
  "fs0 = \<lparr>fs_cwd = ''/home/user'', fs_dirs = {''/'', ''/home'', ''/home/user''},
          fs_files = [''/home/user/settings.json'' \<mapsto> ''{''], fs_denied = {}\<rparr>"

definition w0 :: world where
  "w0 = \<lparr>w_fs = fs0, w_console = [], w_puts = [], w_clock = clock0\<rparr>"

definition env0 :: pdf_env where
  "env0 = \<lparr>split_to_items = (\<lambda>s. filter (\<lambda>item. item \<noteq> []) (split_at (CHR '','') s)),
           formatServicesForList = (\<lambda>costs. map (\<lambda>(name, cost). name @ '': $'' @ format_2f cost) costs),
           render = (\<lambda>elements. Inr ''%PDF-1.4'')\<rparr>"

definition session_ok :: Session where
  "session_ok = \<lparr>client_error = None, put_object_error = (\<lambda>bucket key body content_type. None)\<rparr>"

text \<open>
  The decoders of a Python before 3.11 without \<open>tomli\<close>; the JSON decoder is the scanner
  of this theory.
\<close>

definition loaders_without_toml :: loaders where
  "loaders_without_toml =
     \<lparr>tomllib_present = False,
      toml_load = (\<lambda>content. Inl (OtherException ''tomllib is None'')),
      yaml_load = (\<lambda>content. Inl (YAMLError ''yaml'')),
      json_load = (\<lambda>content. case json_loads content of
                                 None \<Rightarrow> Inl (JSONDecodeError ''Expecting property name enclosed in double quotes'')
                               | Some v \<Rightarrow> Inr v)\<rparr>"

lemma stamp0: "strftime_stamp clock0 = ''20250102_0304''"
  by (simp add: strftime_stamp_def clock0_def zero_pad_def str_nat_small str_nat_big digit_char_def)

lemma footer0: "strftime_footer clock0 = ''2025-01-02 03:04:05''"
  by (simp add: strftime_footer_def clock0_def zero_pad_def str_nat_small str_nat_big digit_char_def)

lemma abs_reports_csv:
  "abspath ''/home/user'' ''reports/audit_report_20250102_0304.csv'' = ''/home/user/reports/audit_report_20250102_0304.csv''"
  by (simp add: abspath_def isabs_def starts_with_def path_join_def normpath_def split_at_def
      norm_step_def Let_def)

lemma abs_reports_pdf:
  "abspath ''/home/user'' ''reports/audit_report_20250102_0304.pdf'' = ''/home/user/reports/audit_report_20250102_0304.pdf''"
  by (simp add: abspath_def isabs_def starts_with_def path_join_def normpath_def split_at_def
      norm_step_def Let_def)

lemma abs_reports: "abspath ''/home/user'' ''reports'' = ''/home/user/reports''"
  by (simp add: abspath_def isabs_def starts_with_def path_join_def normpath_def split_at_def
      norm_step_def Let_def)

lemma parent_reports_pdf:
  "parent_dir ''/home/user/reports/audit_report_20250102_0304.pdf'' = ''/home/user/reports''"
  by (simp add: parent_dir_def ancestors_and_self_def split_at_def Let_def)

lemma parent_reports_csv:
  "parent_dir ''/home/user/reports/audit_report_20250102_0304.csv'' = ''/home/user/reports''"
  by (simp add: parent_dir_def ancestors_and_self_def split_at_def Let_def)

lemma ancestors_reports:
  "ancestors_and_self ''/home/user/reports'' = [''/'', ''/home'', ''/home/user'', ''/home/user/reports'']"
  by (simp add: ancestors_and_self_def split_at_def Let_def)

lemma audit_elements_empty:
  "audit_elements split stamp [] =
     Inr [Title ''AWS FinOps Dashboard (Audit Report)'', Spacer 1 8, Spacer 1 8,
          FooterParagraph ''Note: This report lists untagged EC2, RDS, Lambda, ELBv2 only.'',
          FooterParagraph (''This audit report is generated using AWS FinOps Dashboard (CLI) ''
                           @ [CHR 0xA9] @ '' 2025 on '' @ stamp)]"
  by (simp add: audit_elements_def)

lemma write_reports_pdf_fails:
  "write_file fs0 ''reports/audit_report_20250102_0304.pdf'' content
   = Inl (FileNotFoundError (''[Errno 2] No such file or directory: '' @ [CHR 0x27] @ ''reports/audit_report_20250102_0304.pdf'' @ [CHR 0x27]))"
  by (simp add: write_file_def fs0_def abs_reports_pdf parent_reports_pdf Let_def)

lemma makedirs_reports:
  "makedirs fs0 ''reports'' = (None, fs0\<lparr>fs_dirs := insert ''/home/user/reports'' (fs_dirs fs0)\<rparr>)"
  by (simp add: makedirs_def fs0_def abs_reports ancestors_reports)

lemma write_reports_pdf_after_makedirs:
  "write_file (fs0\<lparr>fs_dirs := insert ''/home/user/reports'' (fs_dirs fs0)\<rparr>)
     ''reports/audit_report_20250102_0304.pdf'' content
   = Inr (fs0\<lparr>fs_dirs := insert ''/home/user/reports'' (fs_dirs fs0),
              fs_files := (fs_files fs0)(''/home/user/reports/audit_report_20250102_0304.pdf'' \<mapsto> content)\<rparr>)"
  by (simp add: write_file_def fs0_def abs_reports_pdf parent_reports_pdf Let_def)

lemma write_reports_csv_after_makedirs:
  "write_file (fs0\<lparr>fs_dirs := insert ''/home/user/reports'' (fs_dirs fs0)\<rparr>)
     ''reports/audit_report_20250102_0304.csv'' content
   = Inr (fs0\<lparr>fs_dirs := insert ''/home/user/reports'' (fs_dirs fs0),
              fs_files := (fs_files fs0)(''/home/user/reports/audit_report_20250102_0304.csv'' \<mapsto> content)\<rparr>)"
  by (simp add: write_file_def fs0_def abs_reports_csv parent_reports_csv Let_def)

lemma w0_simps: "w_fs w0 = fs0" "w_clock w0 = clock0" "w_console w0 = []" "w_puts w0 = []"
  by (simp_all add: w0_def)

lemma fs0_cwd: "fs_cwd fs0 = ''/home/user''"
  by (simp add: fs0_def)

lemma join_reports:
  "path_join ''reports'' (''audit_report_20250102_0304'' @ ext) = ''reports/audit_report_20250102_0304'' @ ext"
  by (simp add: path_join_def starts_with_def)

lemma audit_pdf_missing_dir:
  assumes "\<not> to_s3 b session"
  shows "export_audit_report_to_pdf env0 [] ''audit_report'' (Some ''reports'') b p session w0
   = (Inr None, console_print w0 (''[bold red]Error exporting audit report to PDF: [Errno 2] No such file or directory: '' @ [CHR 0x27] @ ''reports/audit_report_20250102_0304.pdf'' @ [CHR 0x27] @ ''[/]''))"
  using assms
  by (simp add: export_audit_report_to_pdf_def w0_simps stamp0 audit_elements_empty build_to_file_def
      env0_def join_reports [of "''.pdf''", simplified] write_reports_pdf_fails try_except_returns Let_def)

lemma cost_pdf_missing_dir:
  assumes "\<not> to_s3 b session"
  shows "fst (export_cost_dashboard_to_pdf env0 [] ''audit_report'' (Some ''reports'') ''N/A'' ''N/A'' b p session w0)
   = Inr (Some ''/home/user/reports/audit_report_20250102_0304.pdf'')
   \<and> ''/home/user/reports'' \<in> fs_dirs (w_fs (snd (export_cost_dashboard_to_pdf env0 [] ''audit_report'' (Some ''reports'') ''N/A'' ''N/A'' b p session w0)))"
  using assms
  by (simp add: export_cost_dashboard_to_pdf_def w0_simps stamp0 build_to_file_def
      env0_def join_reports [of "''.pdf''", simplified] makedirs_reports write_reports_pdf_after_makedirs
      try_except_returns fs0_cwd abs_reports_pdf Let_def)

lemma csv_missing_dir:
  assumes "\<not> to_s3 b session"
  shows "fst (export_audit_report_to_csv [] ''audit_report'' (Some ''reports'') b p session w0)
   = Inr (Some ''reports/audit_report_20250102_0304.csv'')"
  using assms
  by (simp add: export_audit_report_to_csv_def store_text_def w0_simps stamp0
      join_reports [of "''.csv''", simplified] makedirs_reports write_reports_csv_after_makedirs
      try_except_returns Let_def)

lemma try_except_never_raises:
  assumes "\<And>e w. \<exists>r w'. handler e w = (Inr r, w')"
  shows "\<exists>r. fst (try_except body handler) = Inr r"
proof (cases body)
  case (Pair res w)
  show ?thesis
  proof (cases res)
    case (Inl e)
    from assms [of e w] obtain r w' where "handler e w = (Inr r, w')" by blast
    with Pair Inl show ?thesis by (simp add: try_except_def)
  next
    case (Inr v)
    with Pair show ?thesis by (simp add: try_except_def)
  qed
qed

lemma exports_never_raise:
  "\<exists>r. fst (export_audit_report_to_pdf env rows name path b p session w) = Inr r"
  "\<exists>r. fst (export_audit_report_to_csv rows name path b p session w) = Inr r"
  "\<exists>r. fst (export_audit_report_to_json x name path b p session w) = Inr r"
  "\<exists>r. fst (export_trend_data_to_json x name path b p session w) = Inr r"
  "\<exists>r. fst (export_cost_dashboard_to_pdf env data name path prev cur b p session w) = Inr r"
  unfolding export_audit_report_to_pdf_def export_audit_report_to_csv_def
    export_audit_report_to_json_def export_trend_data_to_json_def export_cost_dashboard_to_pdf_def
  by (rule try_except_never_raises, simp)+

lemma config_handlers_with_tomllib:
  "tomllib_present env \<Longrightarrow> \<exists>r w'. config_handlers env file_path e w = (Inr r, w')"
  by (cases e) (simp_all add: config_handlers_def)

lemma load_config_file_with_tomllib_never_raises:
  "tomllib_present env \<Longrightarrow> \<exists>r. fst (load_config_file env file_path w) = Inr r"
  unfolding load_config_file_def Let_def
  by (rule try_except_never_raises) (rule config_handlers_with_tomllib)

lemma exports_degrade_to_local:
  "export_audit_report_to_pdf env rows name path b p None w
     = export_audit_report_to_pdf env rows name path None p' None w"
  "export_audit_report_to_csv rows name path b p None w
     = export_audit_report_to_csv rows name path None p' None w"
  "export_audit_report_to_json x name path b p None w
     = export_audit_report_to_json x name path None p' None w"
  "export_trend_data_to_json x name path b p None w
     = export_trend_data_to_json x name path None p' None w"
  "export_cost_dashboard_to_pdf env data name path prev cur b p None w
     = export_cost_dashboard_to_pdf env data name path prev cur None p' None w"
  by (simp_all add: export_audit_report_to_pdf_def export_audit_report_to_csv_def
      export_audit_report_to_json_def export_trend_data_to_json_def export_cost_dashboard_to_pdf_def
      store_text_def to_s3_def)

lemma ext_settings: "map lower_char (splitext_ext ''settings.json'') = ''.json''"
  by (simp add: splitext_ext_def lower_char_def Let_def)

lemma abs_settings: "abspath ''/home/user'' ''settings.json'' = ''/home/user/settings.json''"
  by (simp add: abspath_def isabs_def starts_with_def path_join_def normpath_def split_at_def
      norm_step_def Let_def)

lemma read_settings: "read_file fs0 ''settings.json'' = Inr ''{''"
  by (simp add: read_file_def fs0_def abs_settings Let_def)

lemma loads_open_brace: "json_loads ''{'' = None"
  by (simp add: json_loads_def skip_ws_def is_ws_def)

lemma key0: "spec_key (Some ''/reports'') (base_name ''audit_report'' ''.csv'' w0) = ''reports/audit_report_20250102_0304.csv''"
  by (simp add: spec_key_def base_name_def w0_simps stamp0 lstrip_slash_def)

lemma csv_upload0:
  "export_audit_report_to_csv [audit_row0] ''audit_report'' path (Some ''my-bucket'') (Some ''/reports'') (Some session_ok) w0
   = (Inr (Some ''s3://my-bucket/reports/audit_report_20250102_0304.csv''),
      console_print (w0\<lparr>w_puts := [the_put ''my-bucket'' ''reports/audit_report_20250102_0304.csv''
                                       (utf8_encode (audit_csv [audit_row0])) ''text/csv'']\<rparr>)
        ''[bright_green]Successfully exported to S3: s3://my-bucket/reports/audit_report_20250102_0304.csv[/]'')"
  by (simp add: export_csv_remote upload_and_report_cases key0 session_ok_def w0_simps)

section \<open>The claims\<close>

text \<open>
  C1, at the input where the code leaves the claim.  On a Python before 3.11 without
  \<open>tomli\<close>, \<open>tomllib\<close> is \<open>None\<close>.  A configuration file \<open>settings.json\<close> whose text is
  not JSON makes \<open>json.load\<close> raise; the first handler does not take the error, and
  trying the second one, \<open>except tomllib.TOMLDecodeError\<close>, raises \<open>AttributeError\<close>,
  which leaves \<open>load_config_file\<close>.  Nothing is printed and nothing is returned.  (The
  five exports never raise, and \<open>load_config_file\<close> does not when \<open>tomllib\<close> is there:
  \<open>exports_never_raise\<close>, \<open>load_config_file_with_tomllib_never_raises\<close>.)
\<close>

theorem load_config_file_raises:
  "load_config_file loaders_without_toml ''settings.json'' w0
   = (Inl (AttributeError ([CHR 0x27] @ ''NoneType'' @ [CHR 0x27] @ '' object has no attribute ''
                            @ [CHR 0x27] @ ''TOMLDecodeError'' @ [CHR 0x27])), w0)"
  by (simp add: load_config_file_def ext_settings w0_simps read_settings loaders_without_toml_def
      loads_open_brace try_except_returns config_handlers_def)

text \<open>
  C2, at the input where the code leaves the claim.  The directory \<open>reports\<close> does
  not exist.  The audit PDF export does not make it: the file cannot be written, the
  call prints an error and returns \<open>None\<close>.  The cost PDF export makes the directory and
  returns the absolute path.  The CSV export makes it too, but returns the path as it
  was joined, which is relative.
\<close>

theorem local_directory_inconsistent:
  "export_audit_report_to_pdf env0 [] ''audit_report'' (Some ''reports'') None None None w0
     = (Inr None, console_print w0 (''[bold red]Error exporting audit report to PDF: [Errno 2] No such file or directory: '' @ [CHR 0x27] @ ''reports/audit_report_20250102_0304.pdf'' @ [CHR 0x27] @ ''[/]''))
   \<and> ''/home/user/reports'' \<notin> fs_dirs (w_fs (snd (export_audit_report_to_pdf env0 [] ''audit_report'' (Some ''reports'') None None None w0)))
   \<and> fst (export_cost_dashboard_to_pdf env0 [] ''audit_report'' (Some ''reports'') ''N/A'' ''N/A'' None None None w0)
       = Inr (Some ''/home/user/reports/audit_report_20250102_0304.pdf'')
   \<and> fst (export_audit_report_to_csv [] ''audit_report'' (Some ''reports'') None None None w0)
       = Inr (Some ''reports/audit_report_20250102_0304.csv'')
   \<and> \<not> isabs ''reports/audit_report_20250102_0304.csv''"
proof -
  have n: "\<not> to_s3 None None" by (simp add: to_s3_def)
  show ?thesis
    using audit_pdf_missing_dir [OF n, of None] cost_pdf_missing_dir [OF n, of None]
      csv_missing_dir [OF n, of None]
    by (simp add: console_print_def w0_simps fs0_def isabs_def starts_with_def)
qed







text \<open>
  C5, at the input where the code leaves the claim.  A bucket is set and no session is
  given, so every export writes locally (\<open>exports_degrade_to_local\<close>).  For the same
  missing directory the audit PDF export fails, the cost PDF export returns an absolute
  path and the CSV export a relative one.
\<close>

theorem bucket_without_session_inconsistent:
  "fst (export_audit_report_to_pdf env0 [] ''audit_report'' (Some ''reports'') (Some ''my-bucket'') None None w0)
     = Inr None
   \<and> fst (export_cost_dashboard_to_pdf env0 [] ''audit_report'' (Some ''reports'') ''N/A'' ''N/A'' (Some ''my-bucket'') None None w0)
       = Inr (Some ''/home/user/reports/audit_report_20250102_0304.pdf'')
   \<and> fst (export_audit_report_to_csv [] ''audit_report'' (Some ''reports'') (Some ''my-bucket'') None None w0)
       = Inr (Some ''reports/audit_report_20250102_0304.csv'')"
proof -
  have n: "\<not> to_s3 (Some ''my-bucket'') None" by (simp add: to_s3_def)
  show ?thesis
    using audit_pdf_missing_dir [OF n, of None] cost_pdf_missing_dir [OF n, of None]
      csv_missing_dir [OF n, of None]
    by simp
qed



text \<open>
  C7.  In the cost PDF, every row's "Budget Status" section is the bulleted list of the
  row's \<open>budget_info\<close> strings, or the single bullet "No budgets" when that list is empty;
  its "EC2 Instances" section has one bullet \<open>state: count\<close> for every state whose count is
  greater than 0, in the order of the summary, or the single bullet "No instances" when no
  count is.
\<close>

theorem cost_pdf_budget_and_ec2_sections:
  assumes "i < length data"
  shows "(\<exists>pre mid post. cost_elements f prev cur stamp data =
            pre @ [MiniHeader ''Budget Status'', BulletList (budgets (data ! i))] @ mid
                @ [MiniHeader ''EC2 Instances'', BulletList (ec2_items (data ! i))] @ post)
    \<and> (budget_info (data ! i) \<noteq> [] \<longrightarrow> budgets (data ! i) = budget_info (data ! i))
    \<and> (budget_info (data ! i) = [] \<longrightarrow> budgets (data ! i) = [''No budgets''])
    \<and> ((\<exists>(state, count) \<in> set (ec2_summary (data ! i)). count > 0) \<longrightarrow>
          ec2_items (data ! i) = map (\<lambda>(state, count). state @ '': '' @ str_int count)
                            (filter (\<lambda>(state, count). count > 0) (ec2_summary (data ! i))))
    \<and> ((\<forall>(state, count) \<in> set (ec2_summary (data ! i)). count \<le> 0) \<longrightarrow>
          ec2_items (data ! i) = [''No instances''])"
  using cost_elements_sections [OF assms] ec2_items_cases [of "data ! i"]
  by (simp add: budgets_def)

theorem cost_pdf_budget_and_ec2_sections_witness:
  "(0::nat) < length [row0, row1] \<and> (1::nat) < length [row0, row1]
   \<and> budgets row0 = [''monthly: 80% used''] \<and> ec2_items row0 = [''running: 3'']
   \<and> budgets row1 = [''No budgets''] \<and> ec2_items row1 = [''No instances'']"
  using cost_pdf_budget_and_ec2_sections [of 0 "[row0, row1]"]
        cost_pdf_budget_and_ec2_sections [of 1 "[row0, row1]"]
  by (simp add: row0_def row1_def str_int_def str_nat_small digit_char_def)






text \<open>
  C10.  With a bucket and a session, no export changes a file or a directory, the
  \<open>path\<close> argument makes no difference to what the call does, and the call makes one
  \<open>put_object\<close> at most.
\<close>

theorem remote_export_leaves_files:
  assumes "truthy s3_bucket" and "session = Some s"
  shows "only_puts w (export_audit_report_to_pdf env audit_data_list file_name path s3_bucket s3_prefix session w)
       \<and> only_puts w (export_audit_report_to_csv audit_data_list file_name path s3_bucket s3_prefix session w)
       \<and> only_puts w (export_audit_report_to_json raw_audit_data file_name path s3_bucket s3_prefix session w)
       \<and> only_puts w (export_trend_data_to_json trend_data file_name path s3_bucket s3_prefix session w)
       \<and> only_puts w (export_cost_dashboard_to_pdf env data file_name path prev cur s3_bucket s3_prefix session w)
       \<and> export_audit_report_to_pdf env audit_data_list file_name path s3_bucket s3_prefix session w
           = export_audit_report_to_pdf env audit_data_list file_name path' s3_bucket s3_prefix session w
       \<and> export_audit_report_to_csv audit_data_list file_name path s3_bucket s3_prefix session w
           = export_audit_report_to_csv audit_data_list file_name path' s3_bucket s3_prefix session w
       \<and> export_audit_report_to_json raw_audit_data file_name path s3_bucket s3_prefix session w
           = export_audit_report_to_json raw_audit_data file_name path' s3_bucket s3_prefix session w
       \<and> export_trend_data_to_json trend_data file_name path s3_bucket s3_prefix session w
           = export_trend_data_to_json trend_data file_name path' s3_bucket s3_prefix session w
       \<and> export_cost_dashboard_to_pdf env data file_name path prev cur s3_bucket s3_prefix session w
           = export_cost_dashboard_to_pdf env data file_name path' prev cur s3_bucket s3_prefix session w"
proof -
  note b = assms(1)
  have 1: "only_puts w (export_audit_report_to_pdf env audit_data_list file_name path s3_bucket s3_prefix (Some s) w)"
    by (simp add: export_audit_pdf_remote [OF b] upload_and_report_uploads_to failed_uploads_to
        split: sum.splits)
  have 2: "only_puts w (export_audit_report_to_csv audit_data_list file_name path s3_bucket s3_prefix (Some s) w)"
    by (simp add: export_csv_remote [OF b] upload_and_report_uploads_to)
  have 3: "only_puts w (export_audit_report_to_json raw_audit_data file_name path s3_bucket s3_prefix (Some s) w)"
    by (simp add: export_audit_json_remote [OF b] upload_and_report_uploads_to)
  have 4: "only_puts w (export_trend_data_to_json trend_data file_name path s3_bucket s3_prefix (Some s) w)"
    by (simp add: export_trend_json_remote [OF b] upload_and_report_uploads_to)
  have 5: "only_puts w (export_cost_dashboard_to_pdf env data file_name path prev cur s3_bucket s3_prefix (Some s) w)"
    by (simp add: export_cost_pdf_remote [OF b] upload_and_report_uploads_to failed_uploads_to
        split: sum.splits)
  have 6: "export_audit_report_to_pdf env audit_data_list file_name path s3_bucket s3_prefix (Some s) w
           = export_audit_report_to_pdf env audit_data_list file_name path' s3_bucket s3_prefix (Some s) w"
    by (simp only: export_audit_pdf_remote [OF b])
  have 7: "export_audit_report_to_csv audit_data_list file_name path s3_bucket s3_prefix (Some s) w
           = export_audit_report_to_csv audit_data_list file_name path' s3_bucket s3_prefix (Some s) w"
    by (simp only: export_csv_remote [OF b])
  have 8: "export_audit_report_to_json raw_audit_data file_name path s3_bucket s3_prefix (Some s) w
           = export_audit_report_to_json raw_audit_data file_name path' s3_bucket s3_prefix (Some s) w"
    by (simp only: export_audit_json_remote [OF b])
  have 9: "export_trend_data_to_json trend_data file_name path s3_bucket s3_prefix (Some s) w
           = export_trend_data_to_json trend_data file_name path' s3_bucket s3_prefix (Some s) w"
    by (simp only: export_trend_json_remote [OF b])
  have 10: "export_cost_dashboard_to_pdf env data file_name path prev cur s3_bucket s3_prefix (Some s) w
           = export_cost_dashboard_to_pdf env data file_name path' prev cur s3_bucket s3_prefix (Some s) w"
    by (simp only: export_cost_pdf_remote [OF b])
  from 1 2 3 4 5 6 7 8 9 10 show ?thesis by (simp only: assms(2))
qed

theorem remote_export_leaves_files_witness:
  "truthy (Some ''my-bucket'')
   \<and> only_puts w0 (export_audit_report_to_csv [audit_row0] ''audit_report'' (Some ''reports'')
        (Some ''my-bucket'') (Some ''/reports'') (Some session_ok) w0)
   \<and> w_fs (snd (export_audit_report_to_csv [audit_row0] ''audit_report'' (Some ''reports'')
        (Some ''my-bucket'') (Some ''/reports'') (Some session_ok) w0)) = fs0
   \<and> length (w_puts (snd (export_audit_report_to_csv [audit_row0] ''audit_report'' (Some ''reports'')
        (Some ''my-bucket'') (Some ''/reports'') (Some session_ok) w0))) = 1"
  using remote_export_leaves_files [where s3_bucket = "Some ''my-bucket''" and session = "Some session_ok"
      and s = session_ok and s3_prefix = "Some ''/reports''" and file_name = "''audit_report''"
      and w = w0 and audit_data_list = "[audit_row0]" and path = "Some ''reports''" and path' = None
      and env = env0 and raw_audit_data = PNone and trend_data = PNone and data = "[]"
      and prev = "[]" and cur = "[]"]
  by (simp add: csv_upload0 console_print_def w0_simps)

end
